theory Spec2Isabelle
  imports Main
begin

section \<open>Go library functions the adapters call\<close>

text \<open>
  The three site clients (Kleinanzeigen, SchadeAutos, eBay) are Go programs. Go strings
  are byte sequences; they are modelled as \<open>string\<close> (a list of 8-bit characters).
  Go's \<open>int\<close> is modelled as \<open>int\<close>: the only arithmetic the clients do on
  integers is \<open>page++\<close> (bounded by 100) and \<open>offset += 200\<close>, far from the 64-bit
  range.
\<close>

subsection \<open>Package strings\<close>

definition HasPrefix :: "string \<Rightarrow> string \<Rightarrow> bool" where
  "HasPrefix s p = (length p \<le> length s \<and> take (length p) s = p)"

definition TrimPrefix :: "string \<Rightarrow> string \<Rightarrow> string" where
  "TrimPrefix s p = (if HasPrefix s p then drop (length p) s else s)"

fun Contains :: "string \<Rightarrow> string \<Rightarrow> bool" where
  "Contains [] sub = (sub = [])"
| "Contains (c # cs) sub = (HasPrefix (c # cs) sub \<or> Contains cs sub)"

text \<open>
  \<open>strings.TrimSpace\<close> removes leading and trailing white space as Unicode defines it
  (\<open>unicode.IsSpace\<close>). On the UTF-8 bytes of a Go string these are the encodings of
  U+0009..U+000D, U+0020, U+0085, U+00A0, U+1680, U+2000..U+200A, U+2028, U+2029, U+202F,
  U+205F and U+3000.
\<close>

definition space_runes :: "string list" where
  "space_runes =
    [[CHR 0x09], [CHR 0x0A], [CHR 0x0B], [CHR 0x0C], [CHR 0x0D], [CHR 0x20],
     [CHR 0xC2, CHR 0x85], [CHR 0xC2, CHR 0xA0],
     [CHR 0xE1, CHR 0x9A, CHR 0x80],
     [CHR 0xE2, CHR 0x80, CHR 0x80], [CHR 0xE2, CHR 0x80, CHR 0x81],
     [CHR 0xE2, CHR 0x80, CHR 0x82], [CHR 0xE2, CHR 0x80, CHR 0x83],
     [CHR 0xE2, CHR 0x80, CHR 0x84], [CHR 0xE2, CHR 0x80, CHR 0x85],
     [CHR 0xE2, CHR 0x80, CHR 0x86], [CHR 0xE2, CHR 0x80, CHR 0x87],
     [CHR 0xE2, CHR 0x80, CHR 0x88], [CHR 0xE2, CHR 0x80, CHR 0x89],
     [CHR 0xE2, CHR 0x80, CHR 0x8A],
     [CHR 0xE2, CHR 0x80, CHR 0xA8], [CHR 0xE2, CHR 0x80, CHR 0xA9],
     [CHR 0xE2, CHR 0x80, CHR 0xAF],
     [CHR 0xE2, CHR 0x81, CHR 0x9F],
     [CHR 0xE3, CHR 0x80, CHR 0x80]]"

text \<open>The number of bytes of the white-space rune \<open>s\<close> starts with; 0 when it starts with none.\<close>

definition space_width :: "string list \<Rightarrow> string \<Rightarrow> nat" where
  "space_width runes s =
     (case find (\<lambda>r. HasPrefix s r) runes of None \<Rightarrow> 0 | Some r \<Rightarrow> length r)"

function trim_runes :: "string list \<Rightarrow> string \<Rightarrow> string" where
  "trim_runes runes s =
     (if space_width runes s = 0 then s else trim_runes runes (drop (space_width runes s) s))"
  by pat_completeness auto
termination
proof (relation "measure (\<lambda>(runes, s). length s)")
  show "wf (measure (\<lambda>(runes, s). length s))" by simp
next
  fix runes :: "string list" and s :: string
  assume nz: "space_width runes s \<noteq> 0"
  then obtain r where r: "find (\<lambda>r. HasPrefix s r) runes = Some r" "length r \<noteq> 0"
    by (auto simp: space_width_def split: option.splits)
  then have "HasPrefix s r"
    by (auto simp: find_Some_iff)
  with r have "0 < length s"
    by (auto simp: HasPrefix_def)
  with nz show "((runes, drop (space_width runes s) s), (runes, s)) \<in> measure (\<lambda>(runes, s). length s)"
    by simp
qed

declare trim_runes.simps [simp del]

definition TrimSpace :: "string \<Rightarrow> string" where
  "TrimSpace s = rev (trim_runes (map rev space_runes) (rev (trim_runes space_runes s)))"

subsection \<open>Package time\<close>

text \<open>
  A \<open>time.Time\<close> is modelled by its calendar fields in its location: what the accessors
  \<open>Year()\<close>, \<open>Month()\<close>, \<open>Day()\<close>, \<open>Hour()\<close>, \<open>Minute()\<close>, \<open>Second()\<close>,
  \<open>Nanosecond()\<close> and \<open>Location()\<close> return. A location is UTC or a named zone; the
  offsets of a named zone are outside the model.
\<close>

datatype location = UTC | Zone string

record gotime =
  Year :: int
  Month :: nat
  Day :: nat
  Hour :: nat
  Minute :: nat
  Second :: nat
  Nanosecond :: nat
  Location :: location

text \<open>
  \<open>time.Date\<close> with every field in range (month 1..12, a day of that month, hour below 24,
  minute and second below 60), which is how the clients and \<open>time.Parse\<close> call it: the
  fields are stored as given.
\<close>

definition time_Date :: "int \<Rightarrow> nat \<Rightarrow> nat \<Rightarrow> nat \<Rightarrow> nat \<Rightarrow> nat \<Rightarrow> nat \<Rightarrow> location \<Rightarrow> gotime" where
  "time_Date y mo d h mi s ns l =
     \<lparr>Year = y, Month = mo, Day = d, Hour = h, Minute = mi, Second = s, Nanosecond = ns,
      Location = l\<rparr>"

text \<open>The zero \<open>time.Time\<close>: January 1, year 1, 00:00:00 UTC.\<close>

definition zero_time :: gotime where
  "zero_time = time_Date 1 1 1 0 0 0 0 UTC"

text \<open>
  \<open>Time.IsZero\<close> compares the instant with the zero time. The model compares the calendar
  fields; the two differ only for a time of a named zone within a day of January 1, year 1.
\<close>

definition IsZero :: "gotime \<Rightarrow> bool" where
  "IsZero t = (t = zero_time)"

definition isLeap :: "int \<Rightarrow> bool" where
  "isLeap y = (y mod 4 = 0 \<and> (y mod 100 \<noteq> 0 \<or> y mod 400 = 0))"

definition daysIn :: "nat \<Rightarrow> int \<Rightarrow> nat" where
  "daysIn m y =
     (if m = 2 then (if isLeap y then 29 else 28)
      else if m = 4 \<or> m = 6 \<or> m = 9 \<or> m = 11 then 30
      else 31)"

text \<open>
  \<open>now.AddDate(0, 0, -1)\<close>: the day before, normalised by \<open>time.Date\<close> (day 0 of a
  month is the last day of the month before).
\<close>

definition AddDate_yesterday :: "gotime \<Rightarrow> gotime" where
  "AddDate_yesterday t =
     (if 1 < Day t then t\<lparr>Day := Day t - 1\<rparr>
      else if 1 < Month t then t\<lparr>Month := Month t - 1, Day := daysIn (Month t - 1) (Year t)\<rparr>
      else t\<lparr>Year := Year t - 1, Month := 12, Day := 31\<rparr>)"

text \<open>
  \<open>time.Parse(layout, value)\<close>. A layout is split into literal text and elements of the
  reference time. The layouts of this program are built from the elements \<open>2006\<close>,
  \<open>01\<close>, \<open>1\<close>, \<open>02\<close>, \<open>2\<close>, \<open>15\<close>, \<open>04\<close>, \<open>05\<close> and the separators
  \<open>.\<close> \<open>-\<close> \<open>/\<close> \<open>:\<close> \<open>,\<close> and space; \<open>layout_chunks\<close> recognises exactly
  these elements, in the order \<open>nextStdChunk\<close> tests them, and takes every other
  character as literal text.
\<close>

datatype chunk =
    Lit string
  | stdLongYear
  | stdZeroMonth
  | stdNumMonth
  | stdZeroDay
  | stdDay
  | stdHour
  | stdZeroMinute
  | stdZeroSecond

function layout_chunks :: "string \<Rightarrow> string \<Rightarrow> chunk list" where
  "layout_chunks pre [] = [Lit pre]"
| "layout_chunks pre (c # cs) =
     (if c = CHR ''0'' \<and> HasPrefix cs ''1'' then Lit pre # stdZeroMonth # layout_chunks [] (drop 1 cs)
      else if c = CHR ''0'' \<and> HasPrefix cs ''2'' then Lit pre # stdZeroDay # layout_chunks [] (drop 1 cs)
      else if c = CHR ''0'' \<and> HasPrefix cs ''4'' then Lit pre # stdZeroMinute # layout_chunks [] (drop 1 cs)
      else if c = CHR ''0'' \<and> HasPrefix cs ''5'' then Lit pre # stdZeroSecond # layout_chunks [] (drop 1 cs)
      else if c = CHR ''1'' \<and> HasPrefix cs ''5'' then Lit pre # stdHour # layout_chunks [] (drop 1 cs)
      else if c = CHR ''1'' then Lit pre # stdNumMonth # layout_chunks [] cs
      else if c = CHR ''2'' \<and> HasPrefix cs ''006'' then Lit pre # stdLongYear # layout_chunks [] (drop 3 cs)
      else if c = CHR ''2'' then Lit pre # stdDay # layout_chunks [] cs
      else layout_chunks (pre @ [c]) cs)"
  by pat_completeness auto
termination
  by (relation "measure (\<lambda>(pre, l). length l)") auto

definition isDigit :: "string \<Rightarrow> nat \<Rightarrow> bool" where
  "isDigit s i = (i < length s \<and> (48::nat) \<le> of_char (s ! i) \<and> (of_char (s ! i) :: nat) \<le> 57)"

definition digit_val :: "char \<Rightarrow> nat" where
  "digit_val c = of_char c - 48"

text \<open>
  \<open>atoi\<close> on a string with no sign. Its callers pass text whose first byte is a digit, so
  the sign branch of the Go function is never taken.
\<close>

definition atoi :: "string \<Rightarrow> nat option" where
  "atoi s =
     (if list_all (\<lambda>c. isDigit [c] 0) s then Some (foldl (\<lambda>a c. a * 10 + digit_val c) 0 s)
      else None)"

definition getnum :: "string \<Rightarrow> bool \<Rightarrow> (nat \<times> string) option" where
  "getnum s fixed =
     (if \<not> isDigit s 0 then None
      else if \<not> isDigit s 1 then (if fixed then None else Some (digit_val (s ! 0), drop 1 s))
      else Some (digit_val (s ! 0) * 10 + digit_val (s ! 1), drop 2 s))"

definition cutspace :: "string \<Rightarrow> string" where
  "cutspace s = dropWhile (\<lambda>c. c = CHR '' '') s"

function skip :: "string \<Rightarrow> string \<Rightarrow> string option" where
  "skip val [] = Some val"
| "skip val (p # ps) =
     (if p = CHR '' '' then
        (if val \<noteq> [] \<and> hd val \<noteq> CHR '' '' then None
         else skip (cutspace val) (cutspace ps))
      else if val = [] \<or> hd val \<noteq> p then None
      else skip (tl val) ps)"
  by pat_completeness auto
termination
  by (relation "measure (\<lambda>(val, p). length p)")
     (auto simp: cutspace_def less_Suc_eq_le length_dropWhile_le)

definition commaOrPeriod :: "char \<Rightarrow> bool" where
  "commaOrPeriod c = (c = CHR ''.'' \<or> c = CHR '','')"

text \<open>
  \<open>parseNanoseconds(value, nbytes)\<close>, called with \<open>value\<close> starting with a comma or
  period followed by \<open>nbytes - 1\<close> digits: at most nine digits are read and scaled to
  nanoseconds.
\<close>

definition parseNanoseconds :: "string \<Rightarrow> nat \<Rightarrow> nat option" where
  "parseNanoseconds val nbytes =
     (if val = [] \<or> \<not> commaOrPeriod (hd val) then None
      else let n = min nbytes 10 in
        case atoi (take (n - 1) (drop 1 val)) of
          None \<Rightarrow> None
        | Some ns \<Rightarrow> Some (ns * 10 ^ (10 - n)))"

text \<open>The fields \<open>parse\<close> collects; month and day start unset (\<open>-1\<close> in Go).\<close>

record parsed =
  p_year :: int
  p_month :: "nat option"
  p_day :: "nat option"
  p_hour :: nat
  p_min :: nat
  p_sec :: nat
  p_nsec :: nat

definition parsed0 :: parsed where
  "parsed0 = \<lparr>p_year = 0, p_month = None, p_day = None, p_hour = 0, p_min = 0, p_sec = 0,
     p_nsec = 0\<rparr>"

fun parse_chunks :: "chunk list \<Rightarrow> string \<Rightarrow> parsed \<Rightarrow> parsed option" where
  "parse_chunks [] val st = (if val = [] then Some st else None)"
| "parse_chunks (Lit prefix # cs) val st =
     (case skip val prefix of None \<Rightarrow> None | Some v \<Rightarrow> parse_chunks cs v st)"
| "parse_chunks (stdLongYear # cs) val st =
     (if length val < 4 \<or> \<not> isDigit val 0 then None
      else case atoi (take 4 val) of
             None \<Rightarrow> None
           | Some y \<Rightarrow> parse_chunks cs (drop 4 val) (st\<lparr>p_year := int y\<rparr>))"
| "parse_chunks (stdZeroMonth # cs) val st =
     (case getnum val True of
        None \<Rightarrow> None
      | Some (m, v) \<Rightarrow>
          if m \<le> 0 \<or> 12 < m then None else parse_chunks cs v (st\<lparr>p_month := Some m\<rparr>))"
| "parse_chunks (stdNumMonth # cs) val st =
     (case getnum val False of
        None \<Rightarrow> None
      | Some (m, v) \<Rightarrow>
          if m \<le> 0 \<or> 12 < m then None else parse_chunks cs v (st\<lparr>p_month := Some m\<rparr>))"
| "parse_chunks (stdZeroDay # cs) val st =
     (case getnum val True of
        None \<Rightarrow> None
      | Some (d, v) \<Rightarrow> parse_chunks cs v (st\<lparr>p_day := Some d\<rparr>))"
| "parse_chunks (stdDay # cs) val st =
     (case getnum val False of
        None \<Rightarrow> None
      | Some (d, v) \<Rightarrow> parse_chunks cs v (st\<lparr>p_day := Some d\<rparr>))"
| "parse_chunks (stdHour # cs) val st =
     (case getnum val False of
        None \<Rightarrow> None
      | Some (h, v) \<Rightarrow> if 24 \<le> h then None else parse_chunks cs v (st\<lparr>p_hour := h\<rparr>))"
| "parse_chunks (stdZeroMinute # cs) val st =
     (case getnum val True of
        None \<Rightarrow> None
      | Some (m, v) \<Rightarrow> if 60 \<le> m then None else parse_chunks cs v (st\<lparr>p_min := m\<rparr>))"
| "parse_chunks (stdZeroSecond # cs) val st =
     (case getnum val True of
        None \<Rightarrow> None
      | Some (s, v) \<Rightarrow>
          if 60 \<le> s then None
          else if 2 \<le> length v \<and> commaOrPeriod (hd v) \<and> isDigit v 1 then
            (let n = 2 + length (takeWhile (\<lambda>c. isDigit [c] 0) (drop 2 v)) in
             case parseNanoseconds v n of
               None \<Rightarrow> None
             | Some ns \<Rightarrow> parse_chunks cs (drop n v) (st\<lparr>p_sec := s, p_nsec := ns\<rparr>))
          else parse_chunks cs v (st\<lparr>p_sec := s\<rparr>))"

text \<open>
  \<open>time.Parse\<close> returns a time in UTC (no layout here has a zone element), or an error;
  the clients only test the error against \<open>nil\<close>, so the model returns \<open>None\<close> for it.
\<close>

definition time_Parse :: "string \<Rightarrow> string \<Rightarrow> gotime option" where
  "time_Parse layout val =
     (case parse_chunks (layout_chunks [] layout) val parsed0 of
        None \<Rightarrow> None
      | Some st \<Rightarrow>
          let month = (case p_month st of None \<Rightarrow> 1 | Some m \<Rightarrow> m);
              day = (case p_day st of None \<Rightarrow> 1 | Some d \<Rightarrow> d)
          in if day < 1 \<or> daysIn month (p_year st) < day then None
             else Some (time_Date (p_year st) month day (p_hour st) (p_min st) (p_sec st)
                          (p_nsec st) UTC))"

subsection \<open>Package fmt, errors and the log\<close>

record SearchParams =
  VehicleType :: string
  Make :: string
  BaseModel :: string
  Model :: string
  YearFrom :: int
  YearTo :: int
  Offset :: int
  Limit :: int

text \<open>
  \<open>fmt.Errorf\<close>, \<open>log.Printf\<close> and \<open>fmt.Printf\<close> are kept as the format string and
  its arguments; the formatted text is not computed. \<open>Sprintf_d\<close> is
  \<open>fmt.Sprintf("%d", n)\<close>, which the clients use to build requests.
\<close>

datatype error = Errorf string "fmtarg list"
  and fmtarg = ArgInt int | ArgStr string | ArgBool bool | ArgErr error | ArgParams SearchParams

definition digit_char :: "nat \<Rightarrow> char" where
  "digit_char d = ''0123456789'' ! d"

fun decimal :: "nat \<Rightarrow> string" where
  "decimal n = (if n < 10 then [digit_char n] else decimal (n div 10) @ [digit_char (n mod 10)])"

declare decimal.simps [simp del]

definition Sprintf_d :: "int \<Rightarrow> string" where
  "Sprintf_d n = (if n < 0 then CHR ''-'' # decimal (nat (- n)) else decimal (nat n))"

subsection \<open>Package net/url\<close>

text \<open>
  A \<open>url.Values\<close> with one value per key is an association list kept sorted by key, the
  order in which \<open>Encode\<close> writes it. \<open>QueryEscape\<close> keeps letters, digits and
  \<open>- _ . ~\<close>, writes a space as \<open>+\<close> and every other byte as \<open>%XX\<close>.
\<close>

fun str_less :: "string \<Rightarrow> string \<Rightarrow> bool" where
  "str_less [] [] = False"
| "str_less [] (y # ys) = True"
| "str_less (x # xs) [] = False"
| "str_less (x # xs) (y # ys) =
     ((of_char x :: nat) < of_char y \<or> (x = y \<and> str_less xs ys))"

fun Values_Set :: "string \<Rightarrow> string \<Rightarrow> (string \<times> string) list \<Rightarrow> (string \<times> string) list" where
  "Values_Set k v [] = [(k, v)]"
| "Values_Set k v ((k', v') # kvs) =
     (if k = k' then (k, v) # kvs
      else if str_less k k' then (k, v) # (k', v') # kvs
      else (k', v') # Values_Set k v kvs)"

definition shouldEscape :: "char \<Rightarrow> bool" where
  "shouldEscape c =
     (let n = (of_char c :: nat) in
      \<not> ((97 \<le> n \<and> n \<le> 122) \<or> (65 \<le> n \<and> n \<le> 90) \<or> (48 \<le> n \<and> n \<le> 57)
         \<or> c = CHR ''-'' \<or> c = CHR ''_'' \<or> c = CHR ''.'' \<or> c = CHR ''~''))"

definition upperhex :: string where
  "upperhex = ''0123456789ABCDEF''"

definition QueryEscape :: "string \<Rightarrow> string" where
  "QueryEscape s =
     concat (map (\<lambda>c. if c = CHR '' '' then ''+''
                       else if shouldEscape c then
                         [CHR ''%'', upperhex ! ((of_char c :: nat) div 16),
                          upperhex ! ((of_char c :: nat) mod 16)]
                       else [c]) s)"

fun Encode :: "(string \<times> string) list \<Rightarrow> string" where
  "Encode [] = []"
| "Encode [(k, v)] = QueryEscape k @ ''='' @ QueryEscape v"
| "Encode ((k, v) # kv # kvs) = QueryEscape k @ ''='' @ QueryEscape v @ ''&'' @ Encode (kv # kvs)"

section \<open>The contract: parts and the outside world\<close>

record Part =
  ID :: string
  Description :: string
  TypeName :: string
  Name :: string
  ImageBase64 :: string
  URL :: string
  SiteID :: int
  Price :: string
  CreationDate :: gotime

text \<open>The zero value of the Go struct.\<close>

definition Part0 :: Part where
  "Part0 = \<lparr>ID = [], Description = [], TypeName = [], Name = [], ImageBase64 = [], URL = [],
     SiteID = 0, Price = [], CreationDate = zero_time\<rparr>"

text \<open>
  An HTTP request as the clients build it, and what \<open>http.Client.Do\<close> gives back: an
  error, or a status code with a body. A body is the bytes it delivers and the read error
  that ends them, if any.
\<close>

record request =
  req_Method :: string
  req_URL :: string
  req_Header :: "(string \<times> string) list"
  req_Body :: string

type_synonym body = "string \<times> error option"

datatype http_result = Do_error error | Response int body

text \<open>
  What one element of the selection \<open>article.aditem\<close> holds, as the scraper reads it with
  goquery: the text of a descendant (\<open>Find(...).Text()\<close>, empty when there is none) and
  attributes (\<open>Attr\<close>, \<open>None\<close> when it does not exist).
\<close>

record article =
  date_text :: string
  data_adid :: "string option"
  data_href :: "string option"
  title_text :: string
  description_text :: string
  price_text :: string
  img_src :: "string option"

text \<open>The JSON documents of the two API clients, decoded.\<close>

record stockPart =
  sp_Descr :: string
  sp_EnterDate :: string
  sp_Name :: string
  sp_Picture :: string
  sp_Price :: string

record schadeAutosResponse =
  Result_Limited :: bool
  Result_Descr :: string
  Result_StockParts :: "(string \<times> stockPart) list"

record EbayItem =
  ItemID :: string
  Title :: string
  Price_Value :: string
  Price_Currency :: string
  Condition :: string
  ItemWebURL :: string
  ItemOriginDate :: gotime
  ThumbnailImages :: "string list"

record EbayBrowseResponse =
  Total :: int
  ItemSummaries :: "EbayItem list"
  Resp_Limit :: int
  Resp_Offset :: int

record ebayError =
  Message :: string
  LongMessage :: string

record TokenResponse =
  AccessToken :: string
  ExpiresIn :: int
  TokenType :: string

text \<open>
  Every effect of a client is recorded as an event, the newest first. A request carries
  the function that issued it.
\<close>

datatype call_site = At_fetchSinglePage | At_fetchImageAsBase64 | At_GetAccessToken | At_FetchParts

datatype event =
    Http call_site request
  | Time_Now
  | Log_Printf string "fmtarg list"
  | Log_Println string
  | Fmt_Printf string "fmtarg list"

type_synonym world = "event list"

text \<open>
  The outside world and the libraries that are not modelled. The network and the clock
  answer by the number of effects so far, so that the same request may be answered
  differently each time. \<open>Result_StockParts\<close> of a decoded response lists the Go map in
  the order in which this run's \<open>range\<close> statement visits it.
\<close>

record env =
  http_NewRequest :: "string \<Rightarrow> string \<Rightarrow> error option"
  http_Do :: "nat \<Rightarrow> request \<Rightarrow> http_result"
  time_Now :: "nat \<Rightarrow> gotime"
  goquery_articles :: "string \<Rightarrow> error + article list"
  json_schadeAutosResponse :: "body \<Rightarrow> error + schadeAutosResponse"
  json_EbayBrowseResponse :: "body \<Rightarrow> error + EbayBrowseResponse"
  json_ebayAPIError :: "string \<Rightarrow> error + ebayError list"
  json_TokenResponse :: "string \<Rightarrow> error + TokenResponse"
  base64_EncodeToString :: "string \<Rightarrow> string"

definition client_Do :: "env \<Rightarrow> call_site \<Rightarrow> request \<Rightarrow> world \<Rightarrow> http_result \<times> world" where
  "client_Do e site req w = (http_Do e (length w) req, Http site req # w)"

text \<open>The fields the three clients share; \<open>httpClient\<close> is the network of \<open>env\<close>.\<close>

record client =
  baseURL :: string
  siteID :: int

section \<open>The Kleinanzeigen client (scraped listing pages)\<close>

type_synonym KleinanzeigenClient = client

definition NewKleinanzeigenClient :: "int \<Rightarrow> KleinanzeigenClient" where
  "NewKleinanzeigenClient sid = \<lparr>baseURL = ''https://www.kleinanzeigen.de'', siteID = sid\<rparr>"

definition KleinanzeigenClient_GetSiteID :: "KleinanzeigenClient \<Rightarrow> int" where
  "KleinanzeigenClient_GetSiteID c = siteID c"

text \<open>
  The GET request for an image, with the one header the Kleinanzeigen and SchadeAutos
  clients set, and the GET request for a result page, with the two headers
  \<open>fetchSinglePage\<close> sets.
\<close>

definition image_request :: "string \<Rightarrow> request" where
  "image_request imageURL =
     \<lparr>req_Method = ''GET'', req_URL = imageURL,
      req_Header = [(''User-Agent'',
        ''Mozilla/5.0 (X11; Linux x86_64; rv:143.0) Gecko/20100101 Firefox/143.0'')],
      req_Body = []\<rparr>"

definition page_request :: "string \<Rightarrow> request" where
  "page_request searchURL =
     \<lparr>req_Method = ''GET'', req_URL = searchURL,
      req_Header =
        [(''User-Agent'',
          ''Mozilla/5.0 (Windows NT 10.0; Win64; x64) AppleWebKit/537.36 (KHTML, like Gecko) Chrome/118.0.0.0 Safari/537.36''),
         (''Accept'',
          ''text/html,application/xhtml+xml,application/xml;q=0.9,image/webp,*/*;q=0.8'')],
      req_Body = []\<rparr>"

definition KleinanzeigenClient_fetchImageAsBase64 ::
  "env \<Rightarrow> KleinanzeigenClient \<Rightarrow> string \<Rightarrow> world \<Rightarrow> (error + string) \<times> world" where
  "KleinanzeigenClient_fetchImageAsBase64 e c imageURL w =
     (let imageURL = (if HasPrefix imageURL ''//'' then ''https:'' @ imageURL else imageURL) in
      case http_NewRequest e ''GET'' imageURL of
        Some err \<Rightarrow> (Inl (Errorf ''failed to create image request: %w'' [ArgErr err]), w)
      | None \<Rightarrow>
          (case client_Do e At_fetchImageAsBase64 (image_request imageURL) w of
             (Do_error err, w) \<Rightarrow> (Inl (Errorf ''failed to fetch image: %w'' [ArgErr err]), w)
           | (Response status (imageData, rerr), w) \<Rightarrow>
               if status \<noteq> 200 then
                 (Inl (Errorf ''unexpected status code for image: %d'' [ArgInt status]), w)
               else
                 (case rerr of
                    Some err \<Rightarrow> (Inl (Errorf ''failed to read image data: %w'' [ArgErr err]), w)
                  | None \<Rightarrow> (Inr (base64_EncodeToString e imageData), w))))"

text \<open>
  The date of a listing: the block of \<open>extractPart\<close> that computes \<open>creationDate\<close> from
  the trimmed date text and the clock reading \<open>now\<close>. \<open>creationDate\<close> starts as the zero
  time and stays so when nothing parses.
\<close>

fun first_layout :: "string list \<Rightarrow> string \<Rightarrow> gotime" where
  "first_layout [] dateText = zero_time"
| "first_layout (layout # layouts) dateText =
     (case time_Parse layout dateText of
        Some t \<Rightarrow> t
      | None \<Rightarrow> first_layout layouts dateText)"

definition creationDate_of :: "gotime \<Rightarrow> string \<Rightarrow> gotime" where
  "creationDate_of now dateText =
     (if HasPrefix dateText ''Heute, '' then
        (case time_Parse ''15:04'' (TrimPrefix dateText ''Heute, '') of
           Some t \<Rightarrow>
             time_Date (Year now) (Month now) (Day now) (Hour t) (Minute t) 0 0 (Location now)
         | None \<Rightarrow> zero_time)
      else if HasPrefix dateText ''Gestern, '' then
        (case time_Parse ''15:04'' (TrimPrefix dateText ''Gestern, '') of
           Some t \<Rightarrow>
             (let yesterday = AddDate_yesterday now in
              time_Date (Year yesterday) (Month yesterday) (Day yesterday) (Hour t) (Minute t) 0 0
                (Location now))
         | None \<Rightarrow> zero_time)
      else if Contains dateText ''.'' then
        first_layout [''02.01.2006'', ''2.1.2006'', ''02.01.2006, 15:04'', ''2.1.2006, 15:04'']
          dateText
      else zero_time)"

text \<open>
  \<open>extractPart\<close> returns a part or an error. (The Go function also returns the partly
  filled part beside the error; its only caller drops it.)
\<close>

definition KleinanzeigenClient_extractPart ::
  "env \<Rightarrow> KleinanzeigenClient \<Rightarrow> article \<Rightarrow> world \<Rightarrow> (error + Part) \<times> world" where
  "KleinanzeigenClient_extractPart e c s w =
     (let part = Part0\<lparr>SiteID := siteID c\<rparr>;
          dateText = TrimSpace (date_text s);
          (part, w) =
            (if dateText \<noteq> [] then
               (let now = time_Now e (length w);
                    w = Time_Now # w;
                    creationDate = creationDate_of now dateText
                in if \<not> IsZero creationDate then (part\<lparr>CreationDate := creationDate\<rparr>, w)
                   else (part,
                         Log_Printf (''[KleinanzeigenClient] WARNING: Could not parse date text ''
                                      @ [CHR 0x27] @ ''%s'' @ [CHR 0x27]) [ArgStr dateText] # w))
             else (part, Log_Printf ''[KleinanzeigenClient] WARNING: No date text found'' [] # w))
      in case data_adid s of
           None \<Rightarrow> (Inl (Errorf ''missing data-adid'' []), w)
         | Some adID \<Rightarrow>
             if adID = [] then (Inl (Errorf ''missing data-adid'' []), w)
             else
               (let part = part\<lparr>ID := adID\<rparr> in
                case data_href s of
                  None \<Rightarrow> (Inl (Errorf ''missing data-href'' []), w)
                | Some relativeURL \<Rightarrow>
                    if relativeURL = [] then (Inl (Errorf ''missing data-href'' []), w)
                    else
                      (let part = part\<lparr>URL := baseURL c @ relativeURL\<rparr>;
                           title = TrimSpace (title_text s)
                       in if title = [] then (Inl (Errorf ''missing title'' []), w)
                          else
                            (let part = part\<lparr>Name := title\<rparr>;
                                 part = part\<lparr>Description := TrimSpace (description_text s)\<rparr>;
                                 part = part\<lparr>Price := TrimSpace (price_text s)\<rparr>
                             in case img_src s of
                                  None \<Rightarrow> (Inr part, w)
                                | Some imgSrc \<Rightarrow>
                                    if imgSrc = [] then (Inr part, w)
                                    else
                                      (case KleinanzeigenClient_fetchImageAsBase64 e c imgSrc w of
                                         (Inl err, w) \<Rightarrow>
                                           (Inr part,
                                            Log_Printf
                                              ''[KleinanzeigenClient] Warning: failed to fetch image for part %s: %v''
                                              [ArgStr adID, ArgErr err] # w)
                                       | (Inr imageBase64, w) \<Rightarrow>
                                           (Inr (part\<lparr>ImageBase64 := imageBase64\<rparr>), w))))))"

text \<open>
  The callback of \<open>doc.Find(selector).Each\<close> in \<open>fetchSinglePage\<close>, run over the selection
  from index \<open>i\<close> on: a failed extraction is logged and the element skipped.
\<close>

fun Each_extract ::
  "env \<Rightarrow> KleinanzeigenClient \<Rightarrow> article list \<Rightarrow> nat \<Rightarrow> Part list \<Rightarrow> world \<Rightarrow> Part list \<times> world" where
  "Each_extract e c [] i parts w = (parts, w)"
| "Each_extract e c (s # ss) i parts w =
     (case KleinanzeigenClient_extractPart e c s w of
        (Inl err, w) \<Rightarrow>
          Each_extract e c ss (Suc i) parts
            (Log_Printf ''[KleinanzeigenClient] Warning: failed to extract part %d: %v''
               [ArgInt (int i), ArgErr err] # w)
      | (Inr part, w) \<Rightarrow> Each_extract e c ss (Suc i) (parts @ [part]) w)"

definition KleinanzeigenClient_fetchSinglePage ::
  "env \<Rightarrow> KleinanzeigenClient \<Rightarrow> string \<Rightarrow> world \<Rightarrow> (error + Part list) \<times> world" where
  "KleinanzeigenClient_fetchSinglePage e c searchURL w =
     (case http_NewRequest e ''GET'' searchURL of
        Some err \<Rightarrow> (Inl (Errorf ''failed to create request: %w'' [ArgErr err]), w)
      | None \<Rightarrow>
          (case client_Do e At_fetchSinglePage (page_request searchURL) w of
             (Do_error err, w) \<Rightarrow> (Inl (Errorf ''failed to execute request: %w'' [ArgErr err]), w)
           | (Response status (bodyBytes, rerr), w) \<Rightarrow>
               if status \<noteq> 200 then (Inl (Errorf ''unexpected status code: %d'' [ArgInt status]), w)
               else
                 (case rerr of
                    Some err \<Rightarrow> (Inl (Errorf ''failed to read response body: %w'' [ArgErr err]), w)
                  | None \<Rightarrow>
                      (case goquery_articles e bodyBytes of
                         Inl err \<Rightarrow> (Inl (Errorf ''failed to parse HTML: %w'' [ArgErr err]), w)
                       | Inr selection \<Rightarrow>
                           if length selection = 0 then (Inr [], w)
                           else
                             (case Each_extract e c selection 0 [] w of
                                (parts, w) \<Rightarrow>
                                  (Inr parts,
                                   Log_Printf ''[KleinanzeigenClient] Extracted %d parts from page''
                                     [ArgInt (int (length parts))] # w))))))"

definition KleinanzeigenClient_buildSearchURLWithPage ::
  "KleinanzeigenClient \<Rightarrow> SearchParams \<Rightarrow> int \<Rightarrow> error + string" where
  "KleinanzeigenClient_buildSearchURLWithPage c params page =
     (let keywords = ''Mitsubishi Eclipse D30'';
          queryParams = [];
          queryParams = Values_Set ''categoryId'' ''223'' queryParams;
          queryParams = Values_Set ''keywords'' keywords queryParams;
          queryParams = Values_Set ''locationStr'' ''Deutschland'' queryParams;
          queryParams = Values_Set ''radius'' ''0'' queryParams;
          queryParams = Values_Set ''sortingField'' [] queryParams;
          queryParams = Values_Set ''adType'' [] queryParams;
          queryParams = Values_Set ''posterType'' [] queryParams;
          queryParams = Values_Set ''maxPrice'' [] queryParams;
          queryParams = Values_Set ''minPrice'' [] queryParams;
          queryParams = Values_Set ''buyNowEnabled'' ''false'' queryParams;
          queryParams = Values_Set ''shippingCarrier'' [] queryParams;
          queryParams = Values_Set ''shipping'' [] queryParams;
          queryParams =
            (if page > 1 then Values_Set ''pageNum'' (Sprintf_d page) queryParams
             else queryParams);
          searchURL = baseURL c @ ''/s-suchanfrage.html?'' @ Encode queryParams
      in Inr searchURL)"

definition maxPages :: int where
  "maxPages = 100"

definition itemsPerPage :: int where
  "itemsPerPage = 25"

text \<open>
  The \<open>for page <= maxPages\<close> loop of \<open>FetchParts\<close>. It ends with an error, or with the
  parts collected and the value of \<open>page\<close> at the exit.
\<close>

function KleinanzeigenClient_FetchParts_loop ::
  "env \<Rightarrow> KleinanzeigenClient \<Rightarrow> SearchParams \<Rightarrow> int \<Rightarrow> Part list \<Rightarrow> world
     \<Rightarrow> (error + Part list \<times> int) \<times> world" where
  "KleinanzeigenClient_FetchParts_loop e c params page allParts w =
     (if page \<le> maxPages then
        (let w = Log_Printf ''[KleinanzeigenClient] Fetching page %d...'' [ArgInt page] # w in
         case KleinanzeigenClient_buildSearchURLWithPage c params page of
           Inl err \<Rightarrow> (Inl (Errorf ''failed to build search URL: %w'' [ArgErr err]), w)
         | Inr searchURL \<Rightarrow>
             (let w = Log_Printf ''[KleinanzeigenClient] Page %d URL: %s''
                        [ArgInt page, ArgStr searchURL] # w in
              case KleinanzeigenClient_fetchSinglePage e c searchURL w of
                (Inl err, w) \<Rightarrow>
                  (Inl (Errorf ''failed to fetch page %d: %w'' [ArgInt page, ArgErr err]), w)
              | (Inr pageParts, w) \<Rightarrow>
                  (let w = Log_Printf ''[KleinanzeigenClient] Page %d: got %d parts''
                             [ArgInt page, ArgInt (int (length pageParts))] # w in
                   if length pageParts = 0 then
                     (Inr (allParts, page),
                      Log_Printf ''[KleinanzeigenClient] No more parts found on page %d, stopping''
                        [ArgInt page] # w)
                   else
                     (let allParts = allParts @ pageParts in
                      if int (length pageParts) < itemsPerPage then
                        (Inr (allParts, page),
                         Log_Printf
                           ''[KleinanzeigenClient] Got less than full page (%d < %d), this is the last page''
                           [ArgInt (int (length pageParts)), ArgInt itemsPerPage] # w)
                      else if Limit params > 0 \<and> int (length allParts) \<ge> Limit params then
                        (Inr (take (nat (Limit params)) allParts, page),
                         Log_Printf ''[KleinanzeigenClient] Reached limit of %d parts, stopping''
                           [ArgInt (Limit params)] # w)
                      else KleinanzeigenClient_FetchParts_loop e c params (page + 1) allParts w))))
      else (Inr (allParts, page), w))"
  by pat_completeness auto
termination
  by (relation "measure (\<lambda>(e, c, params, page, allParts, w). nat (maxPages + 1 - page))") auto

declare KleinanzeigenClient_FetchParts_loop.simps [simp del]

definition KleinanzeigenClient_FetchParts ::
  "env \<Rightarrow> KleinanzeigenClient \<Rightarrow> SearchParams \<Rightarrow> world \<Rightarrow> (error + Part list) \<times> world" where
  "KleinanzeigenClient_FetchParts e c params w =
     (let w = Log_Printf ''[KleinanzeigenClient] Starting fetch with params: %+v'' [ArgParams params] # w in
      case KleinanzeigenClient_FetchParts_loop e c params 1 [] w of
        (Inl err, w) \<Rightarrow> (Inl err, w)
      | (Inr (allParts, page), w) \<Rightarrow>
          (Inr allParts,
           Log_Printf ''[KleinanzeigenClient] Finished fetching. Total parts: %d from %d page(s)''
             [ArgInt (int (length allParts)), ArgInt page] # w))"

section \<open>The SchadeAutos client (one form search)\<close>

type_synonym SchadeAutosClient = client

definition NewSchadeAutosClient :: "int \<Rightarrow> SchadeAutosClient" where
  "NewSchadeAutosClient sid = \<lparr>baseURL = ''https://www.schadeautos.nl'', siteID = sid\<rparr>"

definition SchadeAutosClient_GetSiteID :: "SchadeAutosClient \<Rightarrow> int" where
  "SchadeAutosClient_GetSiteID c = siteID c"

text \<open>\<open>parseEnterDate\<close> returns a pointer: \<open>None\<close> is \<open>nil\<close>.\<close>

fun parseEnterDate_layouts :: "string list \<Rightarrow> string \<Rightarrow> gotime option" where
  "parseEnterDate_layouts [] dateStr = None"
| "parseEnterDate_layouts (layout # layouts) dateStr =
     (case time_Parse layout dateStr of
        Some t \<Rightarrow> Some t
      | None \<Rightarrow> parseEnterDate_layouts layouts dateStr)"

definition parseEnterDate :: "string \<Rightarrow> gotime option" where
  "parseEnterDate dateStr =
     (if dateStr = [] then None
      else parseEnterDate_layouts
             [''2006-01-02'', ''2006-01-02 15:04:05'', ''02-01-2006'', ''02/01/2006''] dateStr)"

definition SchadeAutosClient_buildPartURL :: "SchadeAutosClient \<Rightarrow> string \<Rightarrow> stockPart \<Rightarrow> string" where
  "SchadeAutosClient_buildPartURL c partID part = baseURL c @ ''/parts/eng/part/'' @ partID"

definition SchadeAutosClient_fetchImageAsBase64 ::
  "env \<Rightarrow> SchadeAutosClient \<Rightarrow> string \<Rightarrow> world \<Rightarrow> (error + string) \<times> world" where
  "SchadeAutosClient_fetchImageAsBase64 e c imageURL w =
     (let imageURL = (if HasPrefix imageURL ''//'' then ''https:'' @ imageURL
                      else if HasPrefix imageURL ''/'' then baseURL c @ imageURL
                      else imageURL) in
      case http_NewRequest e ''GET'' imageURL of
        Some err \<Rightarrow> (Inl (Errorf ''failed to create image request: %w'' [ArgErr err]), w)
      | None \<Rightarrow>
          (case client_Do e At_fetchImageAsBase64 (image_request imageURL) w of
             (Do_error err, w) \<Rightarrow> (Inl (Errorf ''failed to fetch image: %w'' [ArgErr err]), w)
           | (Response status (imageData, rerr), w) \<Rightarrow>
               if status \<noteq> 200 then
                 (Inl (Errorf ''unexpected status code for image: %d'' [ArgInt status]), w)
               else
                 (case rerr of
                    Some err \<Rightarrow> (Inl (Errorf ''failed to read image data: %w'' [ArgErr err]), w)
                  | None \<Rightarrow> (Inr (base64_EncodeToString e imageData), w))))"

text \<open>
  A call either returns or panics. The only panic in the clients is the dereference
  \<open>*parseEnterDate(stockPart.EnterDate)\<close> of a \<open>nil\<close> pointer.
\<close>

datatype 'a outcome = Returns 'a | Panics string

text \<open>
  The prefix both API clients put before a price: the eight bytes of the string literal
  in the source files.
\<close>

definition price_prefix :: string where
  "price_prefix = [CHR 0xC3, CHR 0xA2, CHR 0xE2, CHR 0x80, CHR 0x9A, CHR 0xC2, CHR 0xAC, CHR 0x20]"

text \<open>The \<open>for partID, stockPart := range\<close> loop of \<open>FetchParts\<close>.\<close>

fun SchadeAutosClient_FetchParts_range ::
  "env \<Rightarrow> SchadeAutosClient \<Rightarrow> (string \<times> stockPart) list \<Rightarrow> Part list \<Rightarrow> world
     \<Rightarrow> Part list outcome \<times> world" where
  "SchadeAutosClient_FetchParts_range e c [] parts w = (Returns parts, w)"
| "SchadeAutosClient_FetchParts_range e c ((partID, stockPart) # rest) parts w =
     (case parseEnterDate (sp_EnterDate stockPart) of
        None \<Rightarrow> (Panics ''runtime error: invalid memory address or nil pointer dereference'', w)
      | Some enterDate \<Rightarrow>
          (let part = \<lparr>ID = partID, Description = sp_Descr stockPart, TypeName = [],
                       Name = sp_Name stockPart, ImageBase64 = [],
                       URL = SchadeAutosClient_buildPartURL c partID stockPart,
                       SiteID = siteID c, Price = price_prefix @ sp_Price stockPart,
                       CreationDate = enterDate\<rparr>
           in if sp_Picture stockPart \<noteq> [] then
                (case SchadeAutosClient_fetchImageAsBase64 e c (sp_Picture stockPart) w of
                   (Inl fetchErr, w) \<Rightarrow>
                     SchadeAutosClient_FetchParts_range e c rest (parts @ [part])
                       (Fmt_Printf (''Warning: failed to fetch image for part %s: %v'' @ [CHR 0x0A])
                          [ArgStr partID, ArgErr fetchErr] # w)
                 | (Inr imageBase64, w) \<Rightarrow>
                     SchadeAutosClient_FetchParts_range e c rest
                       (parts @ [part\<lparr>ImageBase64 := imageBase64\<rparr>]) w)
              else SchadeAutosClient_FetchParts_range e c rest (parts @ [part]) w))"

definition SchadeAutosClient_formData :: "SearchParams \<Rightarrow> (string \<times> string) list" where
  "SchadeAutosClient_formData params =
     (let formData = [];
          formData = Values_Set ''widget[vehicleType]'' ''P'' formData;
          formData = Values_Set ''widget[make]'' ''A0001E2D'' formData;
          formData = Values_Set ''widget[baseModel]'' ''A0001FHK'' formData;
          formData = Values_Set ''widget[model]'' ''A0001FHL'' formData;
          formData = Values_Set ''widget[type]'' [] formData;
          formData = Values_Set ''widget[vehicle]'' [] formData;
          yearFrom = YearFrom params;
          yearFrom = (if yearFrom = 0 then 1995 else yearFrom);
          formData = Values_Set ''widget[yearFrom]'' (Sprintf_d yearFrom) formData;
          yearTo = YearTo params;
          yearTo = (if yearTo = 0 then 2000 else yearTo);
          formData = Values_Set ''widget[yearTo]'' (Sprintf_d yearTo) formData;
          formData = Values_Set ''widget[category]'' [] formData;
          formData = Values_Set ''widget[part]'' [] formData;
          formData = Values_Set ''widget[priceMax]'' [] formData;
          formData = Values_Set ''widget[query]'' [] formData;
          offset = Offset params;
          offset = (if offset = 0 then 0 else offset);
          formData = Values_Set ''offset'' (Sprintf_d offset) formData;
          limit = Limit params;
          limit = (if limit = 0 then 3000 else limit);
          formData = Values_Set ''limit'' (Sprintf_d limit) formData;
          formData = Values_Set ''order'' [] formData;
          formData = Values_Set ''shop'' [] formData;
          formData = Values_Set ''screenWidth'' ''2560'' formData;
          formData = Values_Set ''action'' ''search'' formData
      in formData)"

definition SchadeAutosClient_request :: "SchadeAutosClient \<Rightarrow> SearchParams \<Rightarrow> request" where
  "SchadeAutosClient_request c params =
     \<lparr>req_Method = ''POST'', req_URL = baseURL c @ ''/parts/eng/search.json'',
      req_Header =
        [(''User-Agent'', ''Mozilla/5.0 (X11; Linux x86_64; rv:143.0) Gecko/20100101 Firefox/143.0''),
         (''Accept'', ''application/json, text/javascript, */*; q=0.01''),
         (''Accept-Language'', ''en-US,en;q=0.5''),
         (''Content-Type'', ''application/x-www-form-urlencoded; charset=UTF-8''),
         (''X-Requested-With'', ''XMLHttpRequest''),
         (''Origin'', baseURL c),
         (''Referer'', baseURL c @ ''/parts/eng/car-parts'')],
      req_Body = Encode (SchadeAutosClient_formData params)\<rparr>"

definition SchadeAutosClient_FetchParts ::
  "env \<Rightarrow> SchadeAutosClient \<Rightarrow> SearchParams \<Rightarrow> world \<Rightarrow> (error + Part list) outcome \<times> world" where
  "SchadeAutosClient_FetchParts e c params w =
     (let apiURL = baseURL c @ ''/parts/eng/search.json'' in
      case http_NewRequest e ''POST'' apiURL of
        Some err \<Rightarrow> (Returns (Inl (Errorf ''failed to create request: %w'' [ArgErr err])), w)
      | None \<Rightarrow>
          (case client_Do e At_FetchParts (SchadeAutosClient_request c params) w of
             (Do_error err, w) \<Rightarrow>
               (Returns (Inl (Errorf ''failed to execute request: %w'' [ArgErr err])), w)
           | (Response status rbody, w) \<Rightarrow>
               if status \<noteq> 200 then
                 (Returns (Inl (Errorf ''unexpected status code: %d'' [ArgInt status])), w)
               else
                 (case json_schadeAutosResponse e rbody of
                    Inl err \<Rightarrow>
                      (Returns (Inl (Errorf ''failed to decode response: %w'' [ArgErr err])), w)
                  | Inr apiResponse \<Rightarrow>
                      (let w = Fmt_Printf
                                 (''Response parsed. Limited: %v, Descr: %s, Parts count: %d'' @ [CHR 0x0A])
                                 [ArgBool (Result_Limited apiResponse),
                                  ArgStr (Result_Descr apiResponse),
                                  ArgInt (int (length (Result_StockParts apiResponse)))] # w
                       in case SchadeAutosClient_FetchParts_range e c
                                 (Result_StockParts apiResponse) [] w of
                            (Returns parts, w) \<Rightarrow> (Returns (Inr parts), w)
                          | (Panics msg, w) \<Rightarrow> (Panics msg, w)))))"

section \<open>The eBay client (token, then paged search)\<close>

record EbayClient = client +
  accessToken :: string
  clientID :: string
  clientSecret :: string
  isSandbox :: bool

definition sandboxTokenURL :: string where
  "sandboxTokenURL = ''https://api.sandbox.ebay.com/identity/v1/oauth2/token''"

definition prodTokenURL :: string where
  "prodTokenURL = ''https://api.ebay.com/identity/v1/oauth2/token''"

definition NewEbayClient :: "int \<Rightarrow> string \<Rightarrow> string \<Rightarrow> bool \<Rightarrow> EbayClient" where
  "NewEbayClient sid appID secret sandbox =
     \<lparr>baseURL = ''https://svcs.ebay.com/services/search/FindingService/v1'', siteID = sid,
      accessToken = [], clientID = appID, clientSecret = secret, isSandbox = sandbox\<rparr>"

definition EbayClient_GetSiteID :: "EbayClient \<Rightarrow> int" where
  "EbayClient_GetSiteID c = siteID c"

definition EbayClient_getTokenURL :: "EbayClient \<Rightarrow> string" where
  "EbayClient_getTokenURL c = (if isSandbox c then sandboxTokenURL else prodTokenURL)"

definition token_request :: "env \<Rightarrow> EbayClient \<Rightarrow> request" where
  "token_request e c =
     (let auth = base64_EncodeToString e (clientID c @ '':'' @ clientSecret c);
          data = [];
          data = Values_Set ''grant_type'' ''client_credentials'' data;
          data = Values_Set ''scope'' ''https://api.ebay.com/oauth/api_scope'' data
      in \<lparr>req_Method = ''POST'', req_URL = EbayClient_getTokenURL c,
          req_Header = [(''Content-Type'', ''application/x-www-form-urlencoded''),
                        (''Authorization'', ''Basic '' @ auth)],
          req_Body = Encode data\<rparr>)"

text \<open>
  \<open>GetAccessToken\<close> returns an error or \<open>nil\<close> (\<open>None\<close>) and, on success, stores the
  token in the client.
\<close>

definition EbayClient_GetAccessToken ::
  "env \<Rightarrow> EbayClient \<Rightarrow> world \<Rightarrow> error option \<times> EbayClient \<times> world" where
  "EbayClient_GetAccessToken e c w =
     (case http_NewRequest e ''POST'' (EbayClient_getTokenURL c) of
        Some err \<Rightarrow> (Some (Errorf ''failed to create token request: %w'' [ArgErr err]), c, w)
      | None \<Rightarrow>
          (case client_Do e At_GetAccessToken (token_request e c) w of
             (Do_error err, w) \<Rightarrow> (Some (Errorf ''failed to get token: %w'' [ArgErr err]), c, w)
           | (Response status (body, rerr), w) \<Rightarrow>
               (case rerr of
                  Some err \<Rightarrow> (Some (Errorf ''failed to read response: %w'' [ArgErr err]), c, w)
                | None \<Rightarrow>
                    if status \<noteq> 200 then
                      (Some (Errorf ''token request failed with status %d: %s''
                               [ArgInt status, ArgStr body]), c, w)
                    else
                      (case json_TokenResponse e body of
                         Inl err \<Rightarrow>
                           (Some (Errorf ''failed to parse token response: %w'' [ArgErr err]), c, w)
                       | Inr tokenResp \<Rightarrow>
                           (None, c\<lparr>accessToken := AccessToken tokenResp\<rparr>, w)))))"

text \<open>The eBay client sends an image URL as it is, with no header.\<close>

definition EbayClient_fetchImageAsBase64 ::
  "env \<Rightarrow> EbayClient \<Rightarrow> string \<Rightarrow> world \<Rightarrow> (error + string) \<times> world" where
  "EbayClient_fetchImageAsBase64 e c imageURL w =
     (case http_NewRequest e ''GET'' imageURL of
        Some err \<Rightarrow> (Inl (Errorf ''failed to create image request: %w'' [ArgErr err]), w)
      | None \<Rightarrow>
          (case client_Do e At_fetchImageAsBase64
                  \<lparr>req_Method = ''GET'', req_URL = imageURL, req_Header = [], req_Body = []\<rparr> w of
             (Do_error err, w) \<Rightarrow> (Inl (Errorf ''failed to fetch image: %w'' [ArgErr err]), w)
           | (Response status (imageData, rerr), w) \<Rightarrow>
               if status \<noteq> 200 then
                 (Inl (Errorf ''unexpected status code for image: %d'' [ArgInt status]), w)
               else
                 (case rerr of
                    Some err \<Rightarrow> (Inl (Errorf ''failed to read image data: %w'' [ArgErr err]), w)
                  | None \<Rightarrow> (Inr (base64_EncodeToString e imageData), w))))"

text \<open>The \<open>for _, item := range apiResponse.ItemSummaries\<close> loop of \<open>FetchParts\<close>.\<close>

fun EbayClient_FetchParts_items ::
  "env \<Rightarrow> EbayClient \<Rightarrow> EbayItem list \<Rightarrow> Part list \<Rightarrow> world \<Rightarrow> Part list \<times> world" where
  "EbayClient_FetchParts_items e c [] parts w = (parts, w)"
| "EbayClient_FetchParts_items e c (item # items) parts w =
     (let part = \<lparr>ID = ItemID item, Description = Title item, TypeName = [], Name = Title item,
                  ImageBase64 = [], URL = ItemWebURL item, SiteID = siteID c,
                  Price = price_prefix @ Price_Value item, CreationDate = ItemOriginDate item\<rparr>
      in case ThumbnailImages item of
           [] \<Rightarrow> EbayClient_FetchParts_items e c items (parts @ [part]) w
         | imageURL # _ \<Rightarrow>
             if imageURL \<noteq> [] then
               (case EbayClient_fetchImageAsBase64 e c imageURL w of
                  (Inl fetchErr, w) \<Rightarrow> EbayClient_FetchParts_items e c items (parts @ [part]) w
                | (Inr imageBase64, w) \<Rightarrow>
                    EbayClient_FetchParts_items e c items
                      (parts @ [part\<lparr>ImageBase64 := imageBase64\<rparr>]) w)
             else EbayClient_FetchParts_items e c items (parts @ [part]) w)"

definition search_request :: "EbayClient \<Rightarrow> int \<Rightarrow> request" where
  "search_request c offset =
     (let query = [];
          query = Values_Set ''sort'' ''newlyListed'' query;
          query = Values_Set ''limit'' ''200'' query;
          query = Values_Set ''offset'' (Sprintf_d offset) query;
          query = Values_Set ''q'' ''(Mitsubishi Eclipse 2g, D32A)'' query;
          query = Values_Set ''category_ids'' ''6030'' query;
          apiURL = ''https://api.ebay.com/buy/browse/v1/item_summary/search?'' @ Encode query
      in \<lparr>req_Method = ''GET'', req_URL = apiURL,
          req_Header = [(''Authorization'', ''Bearer '' @ accessToken c)], req_Body = []\<rparr>)"

text \<open>
  The message of the error for a status other than 200. The read error of
  \<open>io.ReadAll\<close> is dropped there, so the body is the bytes that arrived.
\<close>

definition status_message :: "env \<Rightarrow> int \<Rightarrow> body \<Rightarrow> string" where
  "status_message e status rbody =
     (let body = fst rbody;
          msg = ''unexpected status code: '' @ Sprintf_d status
      in if length body > 0 then
           (case json_ebayAPIError e body of
              Inl err \<Rightarrow> msg @ '': '' @ body
            | Inr [] \<Rightarrow> msg @ '': '' @ body
            | Inr (apiErr # _) \<Rightarrow>
                (let msg = msg @ '': '' @ Message apiErr in
                 if LongMessage apiErr \<noteq> [] then msg @ '' ('' @ LongMessage apiErr @ '')''
                 else msg))
         else msg)"

text \<open>
  The \<open>for { ... }\<close> loop of \<open>FetchParts\<close>. Nothing bounds it: it runs as long as pages of
  200 or more items arrive, so it is a partial function and \<open>None\<close> means that it does
  not return.
\<close>

partial_function (option) EbayClient_FetchParts_loop ::
  "env \<Rightarrow> EbayClient \<Rightarrow> int \<Rightarrow> Part list \<Rightarrow> world \<Rightarrow> ((error + Part list) \<times> world) option" where
  "EbayClient_FetchParts_loop e c offset allParts w =
     (case http_NewRequest e ''GET'' (req_URL (search_request c offset)) of
        Some err \<Rightarrow> Some (Inl (Errorf ''failed to create request: %w'' [ArgErr err]), w)
      | None \<Rightarrow>
          (case client_Do e At_FetchParts (search_request c offset) w of
             (Do_error err, w) \<Rightarrow>
               Some (Inl (Errorf ''failed to execute request: %w'' [ArgErr err]), w)
           | (Response status rbody, w) \<Rightarrow>
               if status \<noteq> 200 then Some (Inl (Errorf (status_message e status rbody) []), w)
               else
                 (case json_EbayBrowseResponse e rbody of
                    Inl err \<Rightarrow> Some (Inl (Errorf ''failed to decode response: %w'' [ArgErr err]), w)
                  | Inr apiResponse \<Rightarrow>
                      (case EbayClient_FetchParts_items e c (ItemSummaries apiResponse) [] w of
                         (parts, w) \<Rightarrow>
                           if length parts < 200 then Some (Inr (allParts @ parts), w)
                           else EbayClient_FetchParts_loop e c (offset + 200) (allParts @ parts) w))))"

text \<open>
  \<open>FetchParts\<close> calls \<open>c.GetAccessToken()\<close> as a statement: what it returns is dropped.
  The client is returned with the result, since the call may have stored a token in it.
\<close>

definition EbayClient_FetchParts ::
  "env \<Rightarrow> EbayClient \<Rightarrow> SearchParams \<Rightarrow> world
     \<Rightarrow> ((error + Part list) \<times> EbayClient \<times> world) option" where
  "EbayClient_FetchParts e c params w =
     (let w = Log_Println ''Fetching parts from eBay'' # w in
      case EbayClient_GetAccessToken e c w of
        (_, c, w) \<Rightarrow>
          (let w = Log_Println ''Access token retrieved'' # w in
           case EbayClient_FetchParts_loop e c 0 [] w of
             None \<Rightarrow> None
           | Some (res, w) \<Rightarrow> Some (res, c, w)))"

section \<open>Reading the record of effects\<close>

text \<open>
  An element of the selection can be extracted when it has a non-empty \<open>data-adid\<close>, a
  non-empty \<open>data-href\<close> and a title that is not only white space: the three checks of
  \<open>extractPart\<close>.
\<close>

definition extractable :: "article \<Rightarrow> bool" where
  "extractable s =
     ((case data_adid s of None \<Rightarrow> False | Some adID \<Rightarrow> adID \<noteq> [])
      \<and> (case data_href s of None \<Rightarrow> False | Some relativeURL \<Rightarrow> relativeURL \<noteq> [])
      \<and> TrimSpace (title_text s) \<noteq> [])"

text \<open>The part \<open>p\<close> carries the identity, the link and the title of the element \<open>s\<close>.\<close>

definition of_article :: "client \<Rightarrow> article \<Rightarrow> Part \<Rightarrow> bool" where
  "of_article c s p =
     (SiteID p = siteID c \<and> data_adid s = Some (ID p) \<and> ID p \<noteq> []
      \<and> data_href s = Some (drop (length (baseURL c)) (URL p))
      \<and> drop (length (baseURL c)) (URL p) \<noteq> []
      \<and> URL p = baseURL c @ drop (length (baseURL c)) (URL p)
      \<and> Name p = TrimSpace (title_text s) \<and> Name p \<noteq> [])"

text \<open>
  The indexes \<open>fetchSinglePage\<close> has logged with its warning for a failed extraction, the
  newest first.
\<close>

definition extract_warning :: "event \<Rightarrow> int option" where
  "extract_warning ev =
     (case ev of
        Log_Printf f [ArgInt i, ArgErr err] \<Rightarrow>
          if f = ''[KleinanzeigenClient] Warning: failed to extract part %d: %v'' then Some i
          else None
      | _ \<Rightarrow> None)"

definition extract_warnings :: "world \<Rightarrow> int list" where
  "extract_warnings w = List.map_filter extract_warning w"

text \<open>The requests a function has issued, the newest first.\<close>

fun requests_at :: "call_site \<Rightarrow> world \<Rightarrow> request list" where
  "requests_at site [] = []"
| "requests_at site (Http site' r # w) =
     (if site' = site then r # requests_at site w else requests_at site w)"
| "requests_at site (ev # w) = requests_at site w"

section \<open>What the sources answer\<close>

text \<open>
  \<open>buildSearchURLWithPage\<close> never fails; \<open>page_url\<close> is the URL it returns.
\<close>

definition page_url :: "KleinanzeigenClient \<Rightarrow> SearchParams \<Rightarrow> int \<Rightarrow> string" where
  "page_url c params page =
     (case KleinanzeigenClient_buildSearchURLWithPage c params page of
        Inl err \<Rightarrow> []
      | Inr searchURL \<Rightarrow> searchURL)"

text \<open>
  The listing site answers the request for result page \<open>page\<close>, whenever it is made,
  with status 200 and a document of which \<open>n\<close> elements can be extracted.
\<close>

definition page_yields :: "env \<Rightarrow> KleinanzeigenClient \<Rightarrow> SearchParams \<Rightarrow> int \<Rightarrow> nat \<Rightarrow> bool" where
  "page_yields e c params page n =
     (http_NewRequest e ''GET'' (page_url c params page) = None
      \<and> (\<forall>k. \<exists>b sel. http_Do e k (page_request (page_url c params page)) = Response 200 (b, None)
             \<and> goquery_articles e b = Inr sel
             \<and> length (filter extractable sel) = n))"

text \<open>Every result page loads: status 200, a body read to its end, a document that parses.\<close>

definition pages_load :: "env \<Rightarrow> bool" where
  "pages_load e =
     ((\<forall>u. http_NewRequest e ''GET'' u = None)
      \<and> (\<forall>k u. \<exists>b sel. http_Do e k (page_request u) = Response 200 (b, None)
             \<and> goquery_articles e b = Inr sel))"


section \<open>Sample sources\<close>

text \<open>
  A source that answers every request with status 200 and the body \<open>body\<close>, serves no
  listing and no JSON document, and a clock that reads noon of March 10, 2024.
\<close>

definition quiet_env :: env where
  "quiet_env =
     \<lparr>http_NewRequest = (\<lambda>m u. None),
      http_Do = (\<lambda>k r. Response 200 (''body'', None)),
      time_Now = (\<lambda>k. time_Date 2024 3 10 12 0 0 0 (Zone ''Europe/Berlin'')),
      goquery_articles = (\<lambda>b. Inr []),
      json_schadeAutosResponse = (\<lambda>b. Inl (Errorf ''unexpected end of JSON input'' [])),
      json_EbayBrowseResponse = (\<lambda>b. Inl (Errorf ''unexpected end of JSON input'' [])),
      json_ebayAPIError = (\<lambda>b. Inl (Errorf ''unexpected end of JSON input'' [])),
      json_TokenResponse = (\<lambda>b. Inl (Errorf ''unexpected end of JSON input'' [])),
      base64_EncodeToString = (\<lambda>b. ''Ym9keQ=='')\<rparr>"

text \<open>Three listings: two complete ones, and between them one whose title is blank.\<close>

definition mirror :: article where
  "mirror =
     \<lparr>date_text = ''Heute, 14:05'', data_adid = Some ''2841'',
      data_href = Some ''/s-anzeige/spiegel/2841'', title_text = '' Spiegel links '',
      description_text = ''Eclipse D30'', price_text = ''35 EUR'', img_src = None\<rparr>"

definition untitled :: article where
  "untitled = mirror\<lparr>data_adid := Some ''2842'', title_text := ''  ''\<rparr>"

definition bumper :: article where
  "bumper =
     mirror\<lparr>date_text := ''01.02.2023'', data_adid := Some ''2843'',
       data_href := Some ''/s-anzeige/stossstange/2843'', title_text := ''Stossstange''\<rparr>"

definition door :: stockPart where
  "door =
     \<lparr>sp_Descr = ''Portier links'', sp_EnterDate = ''2023-05-01'', sp_Name = ''Deur'',
      sp_Picture = [], sp_Price = ''75,00''\<rparr>"

definition lamp :: EbayItem where
  "lamp =
     \<lparr>ItemID = ''v1|1100|0'', Title = ''Ruecklicht'', Price_Value = ''49.90'',
      Price_Currency = ''EUR'', Condition = ''Used'', ItemWebURL = ''https://www.ebay.de/itm/1100'',
      ItemOriginDate = time_Date 2024 2 1 8 30 0 0 UTC, ThumbnailImages = []\<rparr>"

text \<open>A source where all three sites answer: one page of the three listings, one stock part, one item.\<close>

definition catalogue_env :: env where
  "catalogue_env =
     quiet_env
       \<lparr>goquery_articles := (\<lambda>b. Inr [mirror, untitled, bumper]),
        json_schadeAutosResponse :=
          (\<lambda>b. Inr \<lparr>Result_Limited = False, Result_Descr = [],
                     Result_StockParts = [(''A7'', door)]\<rparr>),
        json_EbayBrowseResponse :=
          (\<lambda>b. Inr \<lparr>Total = 1, ItemSummaries = [lamp], Resp_Limit = 200, Resp_Offset = 0\<rparr>),
        json_TokenResponse :=
          (\<lambda>b. Inr \<lparr>AccessToken = ''v^1.1#i^1'', ExpiresIn = 7200,
                     TokenType = ''Application Access Token''\<rparr>)\<rparr>"

text \<open>The same, with a second stock part whose enter-date is empty, or written with dots.\<close>

definition undated_env :: env where
  "undated_env =
     catalogue_env
       \<lparr>json_schadeAutosResponse :=
          (\<lambda>b. Inr \<lparr>Result_Limited = False, Result_Descr = [],
                     Result_StockParts = [(''A7'', door), (''A8'', door\<lparr>sp_EnterDate := []\<rparr>)]\<rparr>)\<rparr>"

definition dotted_env :: env where
  "dotted_env =
     catalogue_env
       \<lparr>json_schadeAutosResponse :=
          (\<lambda>b. Inr \<lparr>Result_Limited = False, Result_Descr = [],
                     Result_StockParts =
                       [(''A7'', door), (''A8'', door\<lparr>sp_EnterDate := ''01.05.2023''\<rparr>)]\<rparr>)\<rparr>"

text \<open>The same, but the token endpoint does not answer.\<close>

definition token_down_env :: env where
  "token_down_env =
     catalogue_env
       \<lparr>http_Do :=
          (\<lambda>k r. if req_URL r = prodTokenURL then Do_error (Errorf ''context deadline exceeded'' [])
                  else Response 200 (''body'', None))\<rparr>"

text \<open>A listing page whose only element has a blank title.\<close>

definition blank_env :: env where
  "blank_env = quiet_env\<lparr>goquery_articles := (\<lambda>b. Inr [untitled])\<rparr>"

text \<open>The parts the three clients make of the two complete listings, the stock part and the item.\<close>

definition mirror_part :: Part where
  "mirror_part =
     \<lparr>ID = ''2841'', Description = ''Eclipse D30'', TypeName = [], Name = ''Spiegel links'',
      ImageBase64 = [], URL = ''https://www.kleinanzeigen.de/s-anzeige/spiegel/2841'',
      SiteID = 7, Price = ''35 EUR'',
      CreationDate = time_Date 2024 3 10 14 5 0 0 (Zone ''Europe/Berlin'')\<rparr>"

definition bumper_part :: Part where
  "bumper_part =
     \<lparr>ID = ''2843'', Description = ''Eclipse D30'', TypeName = [], Name = ''Stossstange'',
      ImageBase64 = [], URL = ''https://www.kleinanzeigen.de/s-anzeige/stossstange/2843'',
      SiteID = 7, Price = ''35 EUR'', CreationDate = time_Date 2023 2 1 0 0 0 0 UTC\<rparr>"

definition door_part :: Part where
  "door_part =
     \<lparr>ID = ''A7'', Description = ''Portier links'', TypeName = [], Name = ''Deur'',
      ImageBase64 = [], URL = ''https://www.schadeautos.nl/parts/eng/part/A7'',
      SiteID = 8, Price = price_prefix @ ''75,00'',
      CreationDate = time_Date 2023 5 1 0 0 0 0 UTC\<rparr>"

definition lamp_part :: Part where
  "lamp_part =
     \<lparr>ID = ''v1|1100|0'', Description = ''Ruecklicht'', TypeName = [], Name = ''Ruecklicht'',
      ImageBase64 = [], URL = ''https://www.ebay.de/itm/1100'',
      SiteID = 9, Price = price_prefix @ ''49.90'',
      CreationDate = time_Date 2024 2 1 8 30 0 0 UTC\<rparr>"

text \<open>An eBay client that still holds the token of an earlier call.\<close>

definition stale_client :: EbayClient where
  "stale_client = (NewEbayClient 9 ''app'' ''secret'' False)\<lparr>accessToken := ''v^1.1#i^0''\<rparr>"

definition limit_one :: SearchParams where
  "limit_one =
     \<lparr>VehicleType = [], Make = [], BaseModel = [], Model = [], YearFrom = 0, YearTo = 0,
      Offset = 0, Limit = 1\<rparr>"

definition no_limit :: SearchParams where
  "no_limit = limit_one\<lparr>Limit := 0\<rparr>"


section \<open>Properties of the date parsers\<close>

lemmas parse_eval =
  time_Parse_def HasPrefix_def parsed0_def getnum_def isDigit_def digit_val_def
  daysIn_def isLeap_def time_Date_def atoi_def

lemma Parse_14_05: "time_Parse ''15:04'' ''14:05'' = Some (time_Date 0 1 1 14 5 0 0 UTC)"
  by (simp add: parse_eval)

lemma Parse_01_02_2023:
  "time_Parse ''02.01.2006'' ''01.02.2023'' = Some (time_Date 2023 2 1 0 0 0 0 UTC)"
  by (simp add: parse_eval)

text \<open>
  Claim C8. Whatever the clock reads, the date text \<open>Heute, 14:05\<close> becomes 14:05:00 on
  the clock's year, month and day, in the clock's location, and the date text
  \<open>01.02.2023\<close> becomes February 1, 2023 (the day comes first), at midnight UTC. Neither
  is the zero time, so \<open>extractPart\<close> stores them in the part.
\<close>

theorem creationDate_of_examples:
  "creationDate_of now ''Heute, 14:05'' =
     time_Date (Year now) (Month now) (Day now) 14 5 0 0 (Location now)
   \<and> \<not> IsZero (creationDate_of now ''Heute, 14:05'')
   \<and> creationDate_of now ''01.02.2023'' = time_Date 2023 2 1 0 0 0 0 UTC
   \<and> \<not> IsZero (creationDate_of now ''01.02.2023'')"
proof -
  have heute: "creationDate_of now ''Heute, 14:05'' =
      time_Date (Year now) (Month now) (Day now) 14 5 0 0 (Location now)"
    by (simp add: creationDate_of_def HasPrefix_def TrimPrefix_def Parse_14_05)
       (simp add: time_Date_def)
  have day_first: "creationDate_of now ''01.02.2023'' = time_Date 2023 2 1 0 0 0 0 UTC"
    by (simp add: creationDate_of_def HasPrefix_def Parse_01_02_2023)
  show ?thesis
    unfolding heute day_first by (simp add: IsZero_def zero_time_def time_Date_def)
qed

section \<open>The Kleinanzeigen client: extraction\<close>

lemma requests_at_simps2 [simp]:
  "requests_at site (Time_Now # w) = requests_at site w"
  "requests_at site (Log_Printf f args # w) = requests_at site w"
  "requests_at site (Log_Println f # w) = requests_at site w"
  "requests_at site (Fmt_Printf f args # w) = requests_at site w"
  by simp_all

lemma kl_image_requests:
  assumes "KleinanzeigenClient_fetchImageAsBase64 e c u w = (r, w')"
  shows "requests_at At_fetchSinglePage w' = requests_at At_fetchSinglePage w"
  using assms
  by (auto simp: KleinanzeigenClient_fetchImageAsBase64_def client_Do_def Let_def
           split: option.splits http_result.splits prod.splits if_splits)

lemma kl_extract_requests:
  assumes "KleinanzeigenClient_extractPart e c s w = (r, w')"
  shows "requests_at At_fetchSinglePage w' = requests_at At_fetchSinglePage w"
  using assms
  by (auto simp: KleinanzeigenClient_extractPart_def Let_def
           split: option.splits prod.splits if_splits sum.splits
           dest: kl_image_requests)

lemma kl_extract_Inr:
  assumes "KleinanzeigenClient_extractPart e c s w = (Inr p, w')"
  shows "extractable s \<and> SiteID p = siteID c \<and> data_adid s = Some (ID p) \<and> ID p \<noteq> []
         \<and> (\<exists>href. data_href s = Some href \<and> href \<noteq> [] \<and> URL p = baseURL c @ href)
         \<and> Name p = TrimSpace (title_text s) \<and> Name p \<noteq> []"
  using assms
  by (auto simp: KleinanzeigenClient_extractPart_def Let_def extractable_def Part0_def
           split: option.splits prod.splits if_splits sum.splits)

lemma kl_extract_Inl:
  assumes "KleinanzeigenClient_extractPart e c s w = (Inl err, w')"
  shows "\<not> extractable s \<and> requests_at site w' = requests_at site w"
  using assms
  by (auto simp: KleinanzeigenClient_extractPart_def Let_def extractable_def
           split: option.splits prod.splits if_splits sum.splits)



lemma kl_extract_of_article:
  assumes "KleinanzeigenClient_extractPart e c s w = (Inr p, w')"
  shows "of_article c s p"
  using kl_extract_Inr [OF assms] by (auto simp: of_article_def)

lemma Each_extract_parts:
  "Each_extract e c ss i parts w = (ps, w') \<Longrightarrow>
     \<exists>new. ps = parts @ new
       \<and> map ID new = map (\<lambda>s. the (data_adid s)) (filter extractable ss)
       \<and> (\<forall>p\<in>set new. \<exists>s\<in>set ss. of_article c s p)"
proof (induction ss arbitrary: i parts w)
  case Nil
  then show ?case by simp
next
  case (Cons s ss)
  obtain r w1 where ex: "KleinanzeigenClient_extractPart e c s w = (r, w1)"
    by (cases "KleinanzeigenClient_extractPart e c s w")
  show ?case
  proof (cases r)
    case (Inl err)
    with ex have ne: "\<not> extractable s"
      using kl_extract_Inl by blast
    from Cons.prems ex Inl have
      "Each_extract e c ss (Suc i) parts
         (Log_Printf ''[KleinanzeigenClient] Warning: failed to extract part %d: %v''
            [ArgInt (int i), ArgErr err] # w1) = (ps, w')"
      by simp
    from Cons.IH [OF this] obtain new where
      "ps = parts @ new"
      "map ID new = map (\<lambda>s. the (data_adid s)) (filter extractable ss)"
      "\<forall>p\<in>set new. \<exists>s\<in>set ss. of_article c s p"
      by blast
    with ne show ?thesis by auto
  next
    case (Inr p)
    with ex have good: "extractable s" "of_article c s p"
      using kl_extract_Inr kl_extract_of_article by blast+
    from Cons.prems ex Inr have "Each_extract e c ss (Suc i) (parts @ [p]) w1 = (ps, w')"
      by simp
    from Cons.IH [OF this] obtain new where new:
      "ps = (parts @ [p]) @ new"
      "map ID new = map (\<lambda>s. the (data_adid s)) (filter extractable ss)"
      "\<forall>p\<in>set new. \<exists>s\<in>set ss. of_article c s p"
      by blast
    have "ps = parts @ (p # new)" using new(1) by simp
    moreover have "map ID (p # new) = map (\<lambda>s. the (data_adid s)) (filter extractable (s # ss))"
      using good new(2) by (simp add: of_article_def)
    moreover have "\<forall>q\<in>set (p # new). \<exists>s\<in>set (s # ss). of_article c s q"
      using good new(3) by auto
    ultimately show ?thesis by blast
  qed
qed

lemma Each_extract_requests:
  "Each_extract e c ss i parts w = (ps, w') \<Longrightarrow>
     requests_at At_fetchSinglePage w' = requests_at At_fetchSinglePage w"
proof (induction ss arbitrary: i parts w)
  case Nil
  then show ?case by simp
next
  case (Cons s ss)
  obtain r w1 where ex: "KleinanzeigenClient_extractPart e c s w = (r, w1)"
    by (cases "KleinanzeigenClient_extractPart e c s w")
  then have same: "requests_at At_fetchSinglePage w1 = requests_at At_fetchSinglePage w"
    by (rule kl_extract_requests)
  show ?case
  proof (cases r)
    case (Inl err)
    with Cons.prems ex have
      "Each_extract e c ss (Suc i) parts
         (Log_Printf ''[KleinanzeigenClient] Warning: failed to extract part %d: %v''
            [ArgInt (int i), ArgErr err] # w1) = (ps, w')"
      by simp
    from Cons.IH [OF this] same show ?thesis by simp
  next
    case (Inr p)
    with Cons.prems ex have "Each_extract e c ss (Suc i) (parts @ [p]) w1 = (ps, w')"
      by simp
    from Cons.IH [OF this] same show ?thesis by simp
  qed
qed


lemma extract_warnings_simps [simp]:
  "extract_warnings [] = []"
  "extract_warnings (Time_Now # w) = extract_warnings w"
  "extract_warnings (Http site r # w) = extract_warnings w"
  "extract_warnings (Log_Println m # w) = extract_warnings w"
  "extract_warnings (Fmt_Printf f args # w) = extract_warnings w"
  "extract_warnings (Log_Printf f [] # w) = extract_warnings w"
  "extract_warnings (Log_Printf f [ArgStr x] # w) = extract_warnings w"
  "extract_warnings (Log_Printf f [ArgStr x, y] # w) = extract_warnings w"
  "extract_warnings
     (Log_Printf ''[KleinanzeigenClient] Warning: failed to extract part %d: %v''
        [ArgInt i, ArgErr err] # w) = i # extract_warnings w"
  by (simp_all add: extract_warnings_def extract_warning_def List.map_filter_simps)

lemma extract_warnings_other [simp]:
  "f \<noteq> ''[KleinanzeigenClient] Warning: failed to extract part %d: %v'' \<Longrightarrow>
     extract_warnings (Log_Printf f args # w) = extract_warnings w"
  by (simp add: extract_warnings_def extract_warning_def List.map_filter_simps
           split: list.splits fmtarg.splits)

lemma kl_image_warnings:
  assumes "KleinanzeigenClient_fetchImageAsBase64 e c u w = (r, w')"
  shows "extract_warnings w' = extract_warnings w"
  using assms
  by (auto simp: KleinanzeigenClient_fetchImageAsBase64_def client_Do_def Let_def
           split: option.splits http_result.splits prod.splits if_splits)

lemma kl_extract_warnings:
  assumes "KleinanzeigenClient_extractPart e c s w = (r, w')"
  shows "extract_warnings w' = extract_warnings w"
  using assms
  by (auto simp: KleinanzeigenClient_extractPart_def Let_def
           split: option.splits prod.splits if_splits sum.splits
           dest: kl_image_warnings)

text \<open>The positions, from \<open>i\<close> on, of the elements that cannot be extracted.\<close>

lemma Each_extract_warnings:
  "Each_extract e c ss i parts w = (ps, w') \<Longrightarrow>
     extract_warnings w' =
       rev (map (\<lambda>(k, s). int k) (filter (\<lambda>(k, s). \<not> extractable s) (enumerate i ss)))
       @ extract_warnings w"
proof (induction ss arbitrary: i parts w)
  case Nil
  then show ?case by simp
next
  case (Cons s ss)
  obtain r w1 where ex: "KleinanzeigenClient_extractPart e c s w = (r, w1)"
    by (cases "KleinanzeigenClient_extractPart e c s w")
  then have same: "extract_warnings w1 = extract_warnings w"
    by (rule kl_extract_warnings)
  show ?case
  proof (cases r)
    case (Inl err)
    with ex have ne: "\<not> extractable s"
      using kl_extract_Inl by blast
    from Inl Cons.prems ex have
      "Each_extract e c ss (Suc i) parts
         (Log_Printf ''[KleinanzeigenClient] Warning: failed to extract part %d: %v''
            [ArgInt (int i), ArgErr err] # w1) = (ps, w')"
      by simp
    from Cons.IH [OF this] same ne show ?thesis by simp
  next
    case (Inr p)
    with ex have ok: "extractable s"
      using kl_extract_Inr by blast
    from Inr Cons.prems ex have "Each_extract e c ss (Suc i) (parts @ [p]) w1 = (ps, w')"
      by simp
    from Cons.IH [OF this] same ok show ?thesis by simp
  qed
qed

lemma Each_extract_none:
  "filter extractable ss = [] \<Longrightarrow> Each_extract e c ss i parts w = (ps, w') \<Longrightarrow>
     requests_at site w' = requests_at site w"
proof (induction ss arbitrary: i parts w)
  case Nil
  then show ?case by simp
next
  case (Cons s ss)
  from Cons.prems(1) have ne: "\<not> extractable s" and rest: "filter extractable ss = []"
    by (auto split: if_splits)
  obtain r w1 where ex: "KleinanzeigenClient_extractPart e c s w = (r, w1)"
    by (cases "KleinanzeigenClient_extractPart e c s w")
  show ?case
  proof (cases r)
    case (Inl err)
    with ex have same: "requests_at site w1 = requests_at site w"
      using kl_extract_Inl by blast
    from Inl Cons.prems(2) ex have
      "Each_extract e c ss (Suc i) parts
         (Log_Printf ''[KleinanzeigenClient] Warning: failed to extract part %d: %v''
            [ArgInt (int i), ArgErr err] # w1) = (ps, w')"
      by simp
    from Cons.IH [OF rest this] same show ?thesis by simp
  next
    case (Inr p)
    with ex ne show ?thesis
      using kl_extract_Inr by blast
  qed
qed

lemma fetchSinglePage_ok:
  assumes "http_NewRequest e ''GET'' u = None"
    and "http_Do e (length w) (page_request u) = Response 200 (b, None)"
    and "goquery_articles e b = Inr sel"
  shows "\<exists>ps w'. KleinanzeigenClient_fetchSinglePage e c u w = (Inr ps, w')
     \<and> map ID ps = map (\<lambda>s. the (data_adid s)) (filter extractable sel)
     \<and> (\<forall>p\<in>set ps. \<exists>s\<in>set sel. of_article c s p)
     \<and> requests_at At_fetchSinglePage w' = page_request u # requests_at At_fetchSinglePage w
     \<and> (filter extractable sel = [] \<longrightarrow>
          requests_at At_fetchImageAsBase64 w' = requests_at At_fetchImageAsBase64 w)
     \<and> extract_warnings w' =
         rev (map (\<lambda>(k, s). int k) (filter (\<lambda>(k, s). \<not> extractable s) (enumerate 0 sel)))
         @ extract_warnings w"
proof (cases "sel = []")
  case True
  with assms show ?thesis
    by (simp add: KleinanzeigenClient_fetchSinglePage_def client_Do_def)
next
  case False
  obtain ps w1 where each:
    "Each_extract e c sel 0 [] (Http At_fetchSinglePage (page_request u) # w) = (ps, w1)"
    by (cases "Each_extract e c sel 0 [] (Http At_fetchSinglePage (page_request u) # w)")
  with assms False have
    "KleinanzeigenClient_fetchSinglePage e c u w =
       (Inr ps, Log_Printf ''[KleinanzeigenClient] Extracted %d parts from page''
                  [ArgInt (int (length ps))] # w1)"
    by (simp add: KleinanzeigenClient_fetchSinglePage_def client_Do_def)
  moreover from Each_extract_parts [OF each]
  have "map ID ps = map (\<lambda>s. the (data_adid s)) (filter extractable sel)"
    and "\<forall>p\<in>set ps. \<exists>s\<in>set sel. of_article c s p"
    by auto
  moreover from Each_extract_requests [OF each]
  have "requests_at At_fetchSinglePage w1 = page_request u # requests_at At_fetchSinglePage w"
    by simp
  moreover have "filter extractable sel = [] \<longrightarrow>
      requests_at At_fetchImageAsBase64 w1 = requests_at At_fetchImageAsBase64 w"
    using Each_extract_none [OF _ each, of At_fetchImageAsBase64] by simp
  moreover from Each_extract_warnings [OF each]
  have "extract_warnings w1 =
         rev (map (\<lambda>(k, s). int k) (filter (\<lambda>(k, s). \<not> extractable s) (enumerate 0 sel)))
         @ extract_warnings w"
    by simp
  ultimately show ?thesis by simp
qed

lemma fetchSinglePage_Inr:
  assumes "KleinanzeigenClient_fetchSinglePage e c u w = (Inr ps, w')"
  shows "\<exists>b sel. http_Do e (length w) (page_request u) = Response 200 (b, None)
           \<and> goquery_articles e b = Inr sel
           \<and> (\<forall>p\<in>set ps. \<exists>s\<in>set sel. of_article c s p)"
proof -
  from assms obtain b sel where
    resp: "http_Do e (length w) (page_request u) = Response 200 (b, None)"
      "goquery_articles e b = Inr sel"
    by (auto simp: KleinanzeigenClient_fetchSinglePage_def client_Do_def
             split: option.splits http_result.splits prod.splits if_splits sum.splits)
  show ?thesis
  proof (cases "sel = []")
    case True
    with assms resp show ?thesis
      by (auto simp: KleinanzeigenClient_fetchSinglePage_def client_Do_def
               split: option.splits)
  next
    case False
    obtain qs w1 where each:
      "Each_extract e c sel 0 [] (Http At_fetchSinglePage (page_request u) # w) = (qs, w1)"
      by (cases "Each_extract e c sel 0 [] (Http At_fetchSinglePage (page_request u) # w)")
    with assms resp False have "qs = ps"
      by (auto simp: KleinanzeigenClient_fetchSinglePage_def client_Do_def
               split: option.splits)
    with Each_extract_parts [OF each] resp show ?thesis by auto
  qed
qed



section \<open>The Kleinanzeigen client: pages\<close>

lemma build_page_url:
  "KleinanzeigenClient_buildSearchURLWithPage c params page = Inr (page_url c params page)"
  by (simp add: page_url_def KleinanzeigenClient_buildSearchURLWithPage_def Let_def)


lemma loop_done:
  "\<not> page \<le> maxPages \<Longrightarrow>
     KleinanzeigenClient_FetchParts_loop e c params page allParts w = (Inr (allParts, page), w)"
  by (subst KleinanzeigenClient_FetchParts_loop.simps) simp

lemma loop_Inl:
  assumes "page \<le> maxPages"
    and "KleinanzeigenClient_fetchSinglePage e c (page_url c params page)
           (Log_Printf ''[KleinanzeigenClient] Page %d URL: %s''
              [ArgInt page, ArgStr (page_url c params page)]
            # Log_Printf ''[KleinanzeigenClient] Fetching page %d...'' [ArgInt page] # w)
         = (Inl err, w3)"
  shows "KleinanzeigenClient_FetchParts_loop e c params page allParts w =
           (Inl (Errorf ''failed to fetch page %d: %w'' [ArgInt page, ArgErr err]), w3)"
  by (subst KleinanzeigenClient_FetchParts_loop.simps) (simp add: assms build_page_url Let_def)

lemma loop_Inr:
  assumes "page \<le> maxPages"
    and "KleinanzeigenClient_fetchSinglePage e c (page_url c params page)
           (Log_Printf ''[KleinanzeigenClient] Page %d URL: %s''
              [ArgInt page, ArgStr (page_url c params page)]
            # Log_Printf ''[KleinanzeigenClient] Fetching page %d...'' [ArgInt page] # w)
         = (Inr ps, w3)"
  shows "KleinanzeigenClient_FetchParts_loop e c params page allParts w =
     (if length ps = 0 then
        (Inr (allParts, page),
         Log_Printf ''[KleinanzeigenClient] No more parts found on page %d, stopping''
           [ArgInt page]
         # Log_Printf ''[KleinanzeigenClient] Page %d: got %d parts''
             [ArgInt page, ArgInt (int (length ps))] # w3)
      else if int (length ps) < itemsPerPage then
        (Inr (allParts @ ps, page),
         Log_Printf
           ''[KleinanzeigenClient] Got less than full page (%d < %d), this is the last page''
           [ArgInt (int (length ps)), ArgInt itemsPerPage]
         # Log_Printf ''[KleinanzeigenClient] Page %d: got %d parts''
             [ArgInt page, ArgInt (int (length ps))] # w3)
      else if Limit params > 0 \<and> int (length (allParts @ ps)) \<ge> Limit params then
        (Inr (take (nat (Limit params)) (allParts @ ps), page),
         Log_Printf ''[KleinanzeigenClient] Reached limit of %d parts, stopping''
           [ArgInt (Limit params)]
         # Log_Printf ''[KleinanzeigenClient] Page %d: got %d parts''
             [ArgInt page, ArgInt (int (length ps))] # w3)
      else KleinanzeigenClient_FetchParts_loop e c params (page + 1) (allParts @ ps)
             (Log_Printf ''[KleinanzeigenClient] Page %d: got %d parts''
                [ArgInt page, ArgInt (int (length ps))] # w3))"
  by (subst KleinanzeigenClient_FetchParts_loop.simps) (simp add: assms build_page_url Let_def)

text \<open>
  One round of the loop, as far as the parts and the requests go: the loop stops with the
  parts it has, stops with the new page added, stops at the limit, or goes on to the next
  page.
\<close>

lemma loop_round:
  assumes page: "page \<le> maxPages"
    and fetch: "KleinanzeigenClient_fetchSinglePage e c (page_url c params page)
           (Log_Printf ''[KleinanzeigenClient] Page %d URL: %s''
              [ArgInt page, ArgStr (page_url c params page)]
            # Log_Printf ''[KleinanzeigenClient] Fetching page %d...'' [ArgInt page] # w)
         = (Inr ps, w3)"
  shows "\<exists>w1 w2. (\<forall>site. requests_at site w1 = requests_at site w3)
      \<and> (\<forall>site. requests_at site w2 = requests_at site w3)
      \<and> KleinanzeigenClient_FetchParts_loop e c params page allParts w =
         (if length ps = 0 then (Inr (allParts, page), w2)
          else if int (length ps) < itemsPerPage then (Inr (allParts @ ps, page), w2)
          else if Limit params > 0 \<and> int (length (allParts @ ps)) \<ge> Limit params then
            (Inr (take (nat (Limit params)) (allParts @ ps), page), w2)
          else KleinanzeigenClient_FetchParts_loop e c params (page + 1) (allParts @ ps) w1)"
proof -
  let ?w1 = "Log_Printf ''[KleinanzeigenClient] Page %d: got %d parts''
               [ArgInt page, ArgInt (int (length ps))] # w3"
  consider (none) "length ps = 0"
    | (short) "length ps \<noteq> 0" "int (length ps) < itemsPerPage"
    | (limit) "length ps \<noteq> 0" "\<not> int (length ps) < itemsPerPage"
        "Limit params > 0 \<and> int (length (allParts @ ps)) \<ge> Limit params"
    | (more) "length ps \<noteq> 0" "\<not> int (length ps) < itemsPerPage"
        "\<not> (Limit params > 0 \<and> int (length (allParts @ ps)) \<ge> Limit params)"
    by blast
  then show ?thesis
  proof cases
    case none
    show ?thesis
      by (rule exI [of _ ?w1],
          rule exI [of _ "Log_Printf ''[KleinanzeigenClient] No more parts found on page %d, stopping''
               [ArgInt page] # ?w1"])
         (use none in \<open>simp add: loop_Inr [OF page fetch]\<close>)
  next
    case short
    show ?thesis
      by (rule exI [of _ ?w1],
          rule exI [of _ "Log_Printf
               ''[KleinanzeigenClient] Got less than full page (%d < %d), this is the last page''
               [ArgInt (int (length ps)), ArgInt itemsPerPage] # ?w1"])
         (use short in \<open>simp add: loop_Inr [OF page fetch]\<close>)
  next
    case limit
    show ?thesis
      by (rule exI [of _ ?w1],
          rule exI [of _ "Log_Printf ''[KleinanzeigenClient] Reached limit of %d parts, stopping''
               [ArgInt (Limit params)] # ?w1"])
         (use limit in \<open>simp add: loop_Inr [OF page fetch]\<close>)
  next
    case more
    show ?thesis
      by (rule exI [of _ ?w1], rule exI [of _ ?w1])
         (use more in \<open>auto simp add: loop_Inr [OF page fetch]\<close>)
  qed
qed


lemma loop_parts:
  assumes "KleinanzeigenClient_FetchParts_loop e c params page allParts w = (Inr (res, pg), w')"
    and "\<forall>p\<in>set allParts. P p"
    and "\<forall>u w ps w'. KleinanzeigenClient_fetchSinglePage e c u w = (Inr ps, w') \<longrightarrow> (\<forall>p\<in>set ps. P p)"
  shows "\<forall>p\<in>set res. P p"
  using assms
proof (induction "nat (maxPages + 1 - page)" arbitrary: page allParts w rule: less_induct)
  case less
  show ?case
  proof (cases "page \<le> maxPages")
    case False
    with less.prems(1,2) show ?thesis
      by (simp add: loop_done)
  next
    case True
    let ?w0 = "Log_Printf ''[KleinanzeigenClient] Page %d URL: %s''
                 [ArgInt page, ArgStr (page_url c params page)]
               # Log_Printf ''[KleinanzeigenClient] Fetching page %d...'' [ArgInt page] # w"
    obtain r w3 where
      fetch: "KleinanzeigenClient_fetchSinglePage e c (page_url c params page) ?w0 = (r, w3)"
      by (cases "KleinanzeigenClient_fetchSinglePage e c (page_url c params page) ?w0")
    show ?thesis
    proof (cases r)
      case (Inl err)
      with less.prems(1) loop_Inl [OF True, of e c params w err w3 allParts] fetch
      show ?thesis by simp
    next
      case (Inr ps)
      with fetch less.prems(3) have "\<forall>p\<in>set ps. P p"
        by blast
      with less.prems(2) have all: "\<forall>p\<in>set (allParts @ ps). P p"
        by auto
      from loop_round [OF True, of e c params w ps w3 allParts] fetch Inr
      obtain w1 w2 where
        round: "KleinanzeigenClient_FetchParts_loop e c params page allParts w =
         (if length ps = 0 then (Inr (allParts, page), w2)
          else if int (length ps) < itemsPerPage then (Inr (allParts @ ps, page), w2)
          else if Limit params > 0 \<and> int (length (allParts @ ps)) \<ge> Limit params then
            (Inr (take (nat (Limit params)) (allParts @ ps), page), w2)
          else KleinanzeigenClient_FetchParts_loop e c params (page + 1) (allParts @ ps) w1)"
        by blast
      from round less.prems(1) consider
          (old) "res = allParts"
        | (new) "res = allParts @ ps"
        | (cut) "res = take (nat (Limit params)) (allParts @ ps)"
        | (more) "KleinanzeigenClient_FetchParts_loop e c params (page + 1) (allParts @ ps) w1
                  = (Inr (res, pg), w')"
        by (auto split: if_splits)
      then show ?thesis
      proof cases
        case old
        with less.prems(2) show ?thesis by simp
      next
        case new
        with all show ?thesis by simp
      next
        case cut
        with all show ?thesis by (auto dest: in_set_takeD)
      next
        case more
        have smaller: "nat (maxPages + 1 - (page + 1)) < nat (maxPages + 1 - page)"
          using True by simp
        show ?thesis
          by (rule less.hyps [OF smaller more all less.prems(3)])
      qed
    qed
  qed
qed

lemma loop_returns:
  assumes "pages_load e"
  shows "\<exists>res pg w'. KleinanzeigenClient_FetchParts_loop e c params page allParts w
           = (Inr (res, pg), w')"
proof (induction "nat (maxPages + 1 - page)" arbitrary: page allParts w rule: less_induct)
  case less
  show ?case
  proof (cases "page \<le> maxPages")
    case False
    then show ?thesis by (simp add: loop_done)
  next
    case True
    let ?w0 = "Log_Printf ''[KleinanzeigenClient] Page %d URL: %s''
                 [ArgInt page, ArgStr (page_url c params page)]
               # Log_Printf ''[KleinanzeigenClient] Fetching page %d...'' [ArgInt page] # w"
    from assms have nr: "http_NewRequest e ''GET'' (page_url c params page) = None"
      by (simp add: pages_load_def)
    from assms obtain b sel where
      "http_Do e (length ?w0) (page_request (page_url c params page)) = Response 200 (b, None)"
      "goquery_articles e b = Inr sel"
      unfolding pages_load_def by blast
    from fetchSinglePage_ok [OF nr this, of c] obtain ps w3 where
      fetch: "KleinanzeigenClient_fetchSinglePage e c (page_url c params page) ?w0 = (Inr ps, w3)"
      by blast
    from loop_round [OF True fetch, of allParts] obtain w1 w2 where
      round: "KleinanzeigenClient_FetchParts_loop e c params page allParts w =
         (if length ps = 0 then (Inr (allParts, page), w2)
          else if int (length ps) < itemsPerPage then (Inr (allParts @ ps, page), w2)
          else if Limit params > 0 \<and> int (length (allParts @ ps)) \<ge> Limit params then
            (Inr (take (nat (Limit params)) (allParts @ ps), page), w2)
          else KleinanzeigenClient_FetchParts_loop e c params (page + 1) (allParts @ ps) w1)"
      by blast
    have smaller: "nat (maxPages + 1 - (page + 1)) < nat (maxPages + 1 - page)"
      using True by simp
    from less.hyps [OF smaller, of "allParts @ ps" w1] round show ?thesis
      by (auto split: if_splits)
  qed
qed

lemma loop_page:
  assumes page: "page \<le> maxPages"
    and yields: "page_yields e c params page n"
  shows "\<exists>ps w1 w2. length ps = n
      \<and> requests_at At_fetchSinglePage w1
          = page_request (page_url c params page) # requests_at At_fetchSinglePage w
      \<and> requests_at At_fetchSinglePage w2
          = page_request (page_url c params page) # requests_at At_fetchSinglePage w
      \<and> (n = 0 \<longrightarrow> requests_at At_fetchImageAsBase64 w2 = requests_at At_fetchImageAsBase64 w)
      \<and> KleinanzeigenClient_FetchParts_loop e c params page allParts w =
         (if n = 0 then (Inr (allParts, page), w2)
          else if int n < itemsPerPage then (Inr (allParts @ ps, page), w2)
          else if Limit params > 0 \<and> int (length allParts + n) \<ge> Limit params then
            (Inr (take (nat (Limit params)) (allParts @ ps), page), w2)
          else KleinanzeigenClient_FetchParts_loop e c params (page + 1) (allParts @ ps) w1)"
proof -
  let ?u = "page_url c params page"
  let ?w0 = "Log_Printf ''[KleinanzeigenClient] Page %d URL: %s'' [ArgInt page, ArgStr ?u]
             # Log_Printf ''[KleinanzeigenClient] Fetching page %d...'' [ArgInt page] # w"
  from yields have nr: "http_NewRequest e ''GET'' ?u = None"
    by (simp add: page_yields_def)
  from yields obtain b sel where
    resp: "http_Do e (length ?w0) (page_request ?u) = Response 200 (b, None)"
    and sel: "goquery_articles e b = Inr sel"
    and n: "length (filter extractable sel) = n"
    unfolding page_yields_def by blast
  from fetchSinglePage_ok [OF nr resp sel, of c] obtain ps w3 where
    fetch: "KleinanzeigenClient_fetchSinglePage e c ?u ?w0 = (Inr ps, w3)"
    and ids: "map ID ps = map (\<lambda>s. the (data_adid s)) (filter extractable sel)"
    and pages: "requests_at At_fetchSinglePage w3 = page_request ?u # requests_at At_fetchSinglePage ?w0"
    and images: "filter extractable sel = [] \<longrightarrow>
          requests_at At_fetchImageAsBase64 w3 = requests_at At_fetchImageAsBase64 ?w0"
    by blast
  from ids n have len: "length ps = n"
    using map_eq_imp_length_eq by fastforce
  from loop_round [OF page fetch, of allParts] obtain w1 w2 where
    w1: "\<forall>site. requests_at site w1 = requests_at site w3"
    and w2: "\<forall>site. requests_at site w2 = requests_at site w3"
    and round: "KleinanzeigenClient_FetchParts_loop e c params page allParts w =
         (if length ps = 0 then (Inr (allParts, page), w2)
          else if int (length ps) < itemsPerPage then (Inr (allParts @ ps, page), w2)
          else if Limit params > 0 \<and> int (length (allParts @ ps)) \<ge> Limit params then
            (Inr (take (nat (Limit params)) (allParts @ ps), page), w2)
          else KleinanzeigenClient_FetchParts_loop e c params (page + 1) (allParts @ ps) w1)"
    by blast
  have "requests_at At_fetchSinglePage w1 = page_request ?u # requests_at At_fetchSinglePage w"
    and "requests_at At_fetchSinglePage w2 = page_request ?u # requests_at At_fetchSinglePage w"
    using w1 w2 pages by simp_all
  moreover have "n = 0 \<longrightarrow> requests_at At_fetchImageAsBase64 w2 = requests_at At_fetchImageAsBase64 w"
    using w2 images n by auto
  moreover note len round
  ultimately show ?thesis
    by (intro exI [of _ ps] exI [of _ w1] exI [of _ w2]) simp
qed





section \<open>The Kleinanzeigen client: claims\<close>

lemmas trim_eval = TrimSpace_def trim_runes.simps space_width_def space_runes_def HasPrefix_def

lemma untitled_not_extractable: "\<not> extractable untitled"
  by (simp add: extractable_def untitled_def mirror_def trim_eval)



text \<open>
  Claim C7. When the first result page loads and none of its elements can be extracted,
  \<open>FetchParts\<close> returns the empty list and no error; it has requested that one page and
  no other, and no image.
\<close>

theorem empty_first_page:
  assumes "page_yields e c params 1 0"
  shows "\<exists>w'. KleinanzeigenClient_FetchParts e c params w = (Inr [], w')
     \<and> requests_at At_fetchSinglePage w'
         = page_request (page_url c params 1) # requests_at At_fetchSinglePage w
     \<and> requests_at At_fetchImageAsBase64 w' = requests_at At_fetchImageAsBase64 w"
proof -
  let ?w0 = "Log_Printf ''[KleinanzeigenClient] Starting fetch with params: %+v''
               [ArgParams params] # w"
  have first: "(1::int) \<le> maxPages"
    by (simp add: maxPages_def)
  from loop_page [OF first assms, of ?w0 "[]"] obtain w2 where
    "requests_at At_fetchSinglePage w2
       = page_request (page_url c params 1) # requests_at At_fetchSinglePage w"
    "requests_at At_fetchImageAsBase64 w2 = requests_at At_fetchImageAsBase64 w"
    "KleinanzeigenClient_FetchParts_loop e c params 1 [] ?w0 = (Inr ([], 1), w2)"
    by auto
  then show ?thesis
    by (simp add: KleinanzeigenClient_FetchParts_def)
qed

theorem empty_first_page_witness:
  "page_yields blank_env (NewKleinanzeigenClient 7) no_limit 1 0
   \<and> (\<exists>w'. KleinanzeigenClient_FetchParts blank_env (NewKleinanzeigenClient 7) no_limit [] = (Inr [], w')
        \<and> requests_at At_fetchSinglePage w'
            = [page_request (page_url (NewKleinanzeigenClient 7) no_limit 1)]
        \<and> requests_at At_fetchImageAsBase64 w' = [])"
proof -
  have yields: "page_yields blank_env (NewKleinanzeigenClient 7) no_limit 1 0"
    by (simp add: page_yields_def blank_env_def quiet_env_def untitled_not_extractable)
  from empty_first_page [OF yields, of "[]"] yields show ?thesis
    by simp
qed







lemma HasPrefix_append: "HasPrefix (p @ s) p"
  by (simp add: HasPrefix_def)

text \<open>
  Claim C10. Every part that \<open>FetchParts\<close> of a client made by
  \<open>NewKleinanzeigenClient\<close> returns has an ID and a name that are not empty, and its URL is
  \<open>https://www.kleinanzeigen.de\<close> followed by the \<open>data-href\<close> of an element, with the
  part's ID as its \<open>data-adid\<close>, of a page the site has served; so the URL starts with
  that base URL.
\<close>

theorem returned_parts_are_well_formed:
  assumes "fst (KleinanzeigenClient_FetchParts e (NewKleinanzeigenClient sid) params w) = Inr parts"
    and "p \<in> set parts"
  shows "ID p \<noteq> [] \<and> Name p \<noteq> []
     \<and> HasPrefix (URL p) ''https://www.kleinanzeigen.de''
     \<and> (\<exists>k u b sel s href.
           http_Do e k (page_request u) = Response 200 (b, None)
         \<and> goquery_articles e b = Inr sel \<and> s \<in> set sel
         \<and> data_adid s = Some (ID p) \<and> data_href s = Some href \<and> href \<noteq> []
         \<and> URL p = ''https://www.kleinanzeigen.de'' @ href)"
proof -
  let ?c = "NewKleinanzeigenClient sid"
  let ?P = "\<lambda>p. \<exists>k u b sel s. http_Do e k (page_request u) = Response 200 (b, None)
         \<and> goquery_articles e b = Inr sel \<and> s \<in> set sel \<and> of_article ?c s p"
  let ?w0 = "Log_Printf ''[KleinanzeigenClient] Starting fetch with params: %+v''
               [ArgParams params] # w"
  obtain r w1 where run: "KleinanzeigenClient_FetchParts_loop e ?c params 1 [] ?w0 = (r, w1)"
    by (cases "KleinanzeigenClient_FetchParts_loop e ?c params 1 [] ?w0")
  with assms(1) obtain pg where r: "r = Inr (parts, pg)"
    by (cases r) (auto simp: KleinanzeigenClient_FetchParts_def)
  from run r have
    loop: "KleinanzeigenClient_FetchParts_loop e ?c params 1 [] ?w0 = (Inr (parts, pg), w1)"
    by simp
  have page: "\<forall>u w ps w'. KleinanzeigenClient_fetchSinglePage e ?c u w = (Inr ps, w')
                \<longrightarrow> (\<forall>p\<in>set ps. ?P p)"
  proof (intro allI impI ballI)
    fix u w ps w' q
    assume fetch: "KleinanzeigenClient_fetchSinglePage e ?c u w = (Inr ps, w')"
      and q: "q \<in> set ps"
    from fetchSinglePage_Inr [OF fetch] obtain b sel where
      resp: "http_Do e (length w) (page_request u) = Response 200 (b, None)"
      and sel: "goquery_articles e b = Inr sel"
      and arts: "\<forall>p\<in>set ps. \<exists>s\<in>set sel. of_article ?c s p"
      by blast
    from arts q obtain s where "s \<in> set sel" "of_article ?c s q"
      by blast
    with resp sel show "?P q"
      by (intro exI [of _ "length w"] exI [of _ u] exI [of _ b] exI [of _ sel] exI [of _ s]) simp
  qed
  have "\<forall>p\<in>set parts. ?P p"
    by (rule loop_parts [where P = ?P, OF loop _ page]) simp
  with assms(2) obtain k u b sel s where
    served: "http_Do e k (page_request u) = Response 200 (b, None)"
      "goquery_articles e b = Inr sel" "s \<in> set sel"
    and art: "of_article ?c s p"
    by blast
  define href where "href = drop (length (baseURL ?c)) (URL p)"
  have base: "baseURL ?c = ''https://www.kleinanzeigen.de''"
    by (simp add: NewKleinanzeigenClient_def)
  from art have fields: "ID p \<noteq> []" "Name p \<noteq> []" "data_adid s = Some (ID p)"
    "data_href s = Some href" "href \<noteq> []" "URL p = baseURL ?c @ href"
    unfolding of_article_def href_def by blast+
  have "HasPrefix (baseURL ?c @ href) (baseURL ?c)"
    by (rule HasPrefix_append)
  with fields(6) have prefix: "HasPrefix (URL p) (baseURL ?c)"
    by simp
  have "\<exists>k u b sel s href.
           http_Do e k (page_request u) = Response 200 (b, None)
         \<and> goquery_articles e b = Inr sel \<and> s \<in> set sel
         \<and> data_adid s = Some (ID p) \<and> data_href s = Some href \<and> href \<noteq> []
         \<and> URL p = baseURL ?c @ href"
    using served fields(3-6) by blast
  with fields(1,2) prefix have
    "ID p \<noteq> [] \<and> Name p \<noteq> []
     \<and> HasPrefix (URL p) (baseURL ?c)
     \<and> (\<exists>k u b sel s href.
           http_Do e k (page_request u) = Response 200 (b, None)
         \<and> goquery_articles e b = Inr sel \<and> s \<in> set sel
         \<and> data_adid s = Some (ID p) \<and> data_href s = Some href \<and> href \<noteq> []
         \<and> URL p = baseURL ?c @ href)"
    by (intro conjI)
  then show ?thesis
    unfolding base .
qed



lemma catalogue_listing:
  "fst (KleinanzeigenClient_FetchParts catalogue_env (NewKleinanzeigenClient 7) limit_one [])
   = Inr [mirror_part, bumper_part]"
  by (simp add: KleinanzeigenClient_FetchParts_def KleinanzeigenClient_FetchParts_loop.simps
      KleinanzeigenClient_buildSearchURLWithPage_def KleinanzeigenClient_fetchSinglePage_def
      client_Do_def KleinanzeigenClient_extractPart_def catalogue_env_def quiet_env_def
      mirror_def untitled_def bumper_def NewKleinanzeigenClient_def trim_eval Part0_def
      creationDate_of_def TrimPrefix_def Parse_14_05 Parse_01_02_2023 IsZero_def zero_time_def
      time_Date_def maxPages_def itemsPerPage_def limit_one_def Let_def
      mirror_part_def bumper_part_def)

theorem returned_parts_are_well_formed_witness:
  "fst (KleinanzeigenClient_FetchParts catalogue_env (NewKleinanzeigenClient 7) limit_one [])
     = Inr [mirror_part, bumper_part]
   \<and> bumper_part \<in> set [mirror_part, bumper_part]
   \<and> ID bumper_part \<noteq> [] \<and> Name bumper_part \<noteq> []
   \<and> HasPrefix (URL bumper_part) ''https://www.kleinanzeigen.de''
   \<and> (\<exists>k u b sel s href.
           http_Do catalogue_env k (page_request u) = Response 200 (b, None)
         \<and> goquery_articles catalogue_env b = Inr sel \<and> s \<in> set sel
         \<and> data_adid s = Some (ID bumper_part) \<and> data_href s = Some href \<and> href \<noteq> []
         \<and> URL bumper_part = ''https://www.kleinanzeigen.de'' @ href)"
proof -
  have mem: "bumper_part \<in> set [mirror_part, bumper_part]"
    by simp
  show ?thesis
    by (rule conjI [OF catalogue_listing
          conjI [OF mem returned_parts_are_well_formed [OF catalogue_listing mem]]])
qed


text \<open>
  Claim C1, as the code has it: the limit is tested only after a full page. A first page
  with two listings and a limit of 1 gives back both listings.
\<close>

theorem short_page_exceeds_limit:
  "fst (KleinanzeigenClient_FetchParts catalogue_env (NewKleinanzeigenClient 7) limit_one [])
     = Inr [mirror_part, bumper_part]
   \<and> 0 < Limit limit_one
   \<and> max 1 (Limit limit_one) < int (length [mirror_part, bumper_part])"
  using catalogue_listing by (simp add: limit_one_def)

section \<open>The SchadeAutos and eBay clients: loops\<close>

lemma schade_image_world:
  assumes "SchadeAutosClient_fetchImageAsBase64 e c u w = (r, w')"
  shows "requests_at At_FetchParts w' = requests_at At_FetchParts w"
  using assms
  by (auto simp: SchadeAutosClient_fetchImageAsBase64_def client_Do_def Let_def
           split: option.splits http_result.splits prod.splits if_splits)

lemma schade_range_SiteID:
  "SchadeAutosClient_FetchParts_range e c items parts w = (Returns ps, w') \<Longrightarrow>
     \<forall>p\<in>set parts. SiteID p = siteID c \<Longrightarrow> \<forall>p\<in>set ps. SiteID p = siteID c"
proof (induction items arbitrary: parts w)
  case Nil
  then show ?case by simp
next
  case (Cons item items)
  obtain partID stockPart where item: "item = (partID, stockPart)"
    by (cases item)
  from Cons.prems(1) item obtain enterDate where
    date: "parseEnterDate (sp_EnterDate stockPart) = Some enterDate"
    by (auto split: option.splits)
  from Cons.prems item date obtain parts1 w1 where
    rec: "SchadeAutosClient_FetchParts_range e c items parts1 w1 = (Returns ps, w')"
    and parts1: "\<forall>p\<in>set parts1. SiteID p = siteID c"
    by (auto simp: Let_def split: if_splits prod.splits sum.splits)
  from Cons.IH [OF rec parts1] show ?case .
qed

lemma schade_range_panics:
  "list_ex (\<lambda>(partID, stockPart). parseEnterDate (sp_EnterDate stockPart) = None) items \<Longrightarrow>
     \<exists>w'. SchadeAutosClient_FetchParts_range e c items parts w =
            (Panics ''runtime error: invalid memory address or nil pointer dereference'', w')"
proof (induction items arbitrary: parts w)
  case Nil
  then show ?case by simp
next
  case (Cons item items)
  obtain partID stockPart where item: "item = (partID, stockPart)"
    by (cases item)
  show ?case
  proof (cases "parseEnterDate (sp_EnterDate stockPart)")
    case None
    with item show ?thesis by simp
  next
    case (Some enterDate)
    with Cons.prems item have
      rest: "list_ex (\<lambda>(partID, stockPart). parseEnterDate (sp_EnterDate stockPart) = None) items"
      by simp
    from Some item Cons.IH [OF rest] show ?thesis
      by (auto simp: Let_def split: prod.splits sum.splits)
  qed
qed

lemma ebay_image_world:
  assumes "EbayClient_fetchImageAsBase64 e c u w = (r, w')"
  shows "requests_at At_FetchParts w' = requests_at At_FetchParts w"
  using assms
  by (auto simp: EbayClient_fetchImageAsBase64_def client_Do_def Let_def
           split: option.splits http_result.splits prod.splits if_splits)

lemma ebay_items:
  "EbayClient_FetchParts_items e c items parts w = (ps, w') \<Longrightarrow>
     (\<exists>new. ps = parts @ new \<and> length new = length items \<and> (\<forall>p\<in>set new. SiteID p = siteID c))
     \<and> requests_at At_FetchParts w' = requests_at At_FetchParts w"
proof (induction items arbitrary: parts w)
  case Nil
  then show ?case by simp
next
  case (Cons item items)
  from Cons.prems obtain part w1 where
    rec: "EbayClient_FetchParts_items e c items (parts @ [part]) w1 = (ps, w')"
    and part: "SiteID part = siteID c"
    and w1: "requests_at At_FetchParts w1 = requests_at At_FetchParts w"
    by (auto simp: Let_def split: list.splits if_splits prod.splits sum.splits
             dest: ebay_image_world)
  from Cons.IH [OF rec] obtain new where
    "ps = (parts @ [part]) @ new" "length new = length items"
    "\<forall>p\<in>set new. SiteID p = siteID c"
    "requests_at At_FetchParts w' = requests_at At_FetchParts w1"
    by blast
  with part w1 show ?case
    by (intro conjI exI [of _ "part # new"]) auto
qed


lemma ebay_loop_SiteID:
  assumes "EbayClient_FetchParts_loop e c offset allParts w = Some y"
  shows "(\<forall>p\<in>set allParts. SiteID p = siteID c) \<longrightarrow>
         (\<forall>ps w'. y = (Inr ps, w') \<longrightarrow> (\<forall>p\<in>set ps. SiteID p = siteID c))"
proof (rule EbayClient_FetchParts_loop.raw_induct
    [where P = "\<lambda>e c offset allParts w y. (\<forall>p\<in>set allParts. SiteID p = siteID c) \<longrightarrow>
         (\<forall>ps w'. y = (Inr ps, w') \<longrightarrow> (\<forall>p\<in>set ps. SiteID p = siteID c))", OF _ assms],
    goal_cases)
  case (1 loop e c offset allParts w y)
  show ?case
  proof (intro impI allI)
    fix ps w'
    assume old: "\<forall>p\<in>set allParts. SiteID p = siteID c" and y: "y = (Inr ps, w')"
    from "1"(2) y obtain apiResponse :: EbayBrowseResponse and parts w1 w2 where
      items: "EbayClient_FetchParts_items e c (ItemSummaries apiResponse) [] w1 = (parts, w2)"
      and after: "(if length parts < 200 then Some (Inr (allParts @ parts), w2)
                   else loop e c (offset + 200) (allParts @ parts) w2) = Some (Inr ps, w')"
      by (auto split: option.splits http_result.splits prod.splits if_splits sum.splits)
    from ebay_items [OF items] have new: "\<forall>p\<in>set parts. SiteID p = siteID c"
      by auto
    with old have all: "\<forall>p\<in>set (allParts @ parts). SiteID p = siteID c"
      by auto
    show "\<forall>p\<in>set ps. SiteID p = siteID c"
    proof (cases "length parts < 200")
      case True
      with after all show ?thesis by simp
    next
      case False
      with after have "loop e c (offset + 200) (allParts @ parts) w2 = Some (Inr ps, w')"
        by simp
      from "1"(1) [OF this] all show ?thesis by blast
    qed
  qed
qed





section \<open>The SchadeAutos and eBay clients: claims\<close>

lemmas enter_eval = parseEnterDate_def parse_eval cutspace_def commaOrPeriod_def

lemma door_date: "parseEnterDate ''2023-05-01'' = Some (time_Date 2023 5 1 0 0 0 0 UTC)"
  by (simp add: enter_eval)

lemma empty_date: "parseEnterDate [] = None"
  by (simp add: parseEnterDate_def)

lemma dotted_date: "parseEnterDate ''01.05.2023'' = None"
  by (simp add: enter_eval)

text \<open>
  Whatever else the response holds, one stock part whose enter-date does not parse makes
  the loop of \<open>FetchParts\<close> panic: the call returns neither a list nor an error.
\<close>

lemma SchadeAutos_bad_date_panics:
  assumes "http_NewRequest e ''POST'' (baseURL c @ ''/parts/eng/search.json'') = None"
    and "http_Do e (length w) (SchadeAutosClient_request c params) = Response 200 rbody"
    and "json_schadeAutosResponse e rbody = Inr apiResponse"
    and "list_ex (\<lambda>(partID, stockPart). parseEnterDate (sp_EnterDate stockPart) = None)
           (Result_StockParts apiResponse)"
  shows "fst (SchadeAutosClient_FetchParts e c params w)
           = Panics ''runtime error: invalid memory address or nil pointer dereference''"
proof -
  let ?w1 = "Fmt_Printf
               (''Response parsed. Limited: %v, Descr: %s, Parts count: %d'' @ [CHR 0x0A])
               [ArgBool (Result_Limited apiResponse), ArgStr (Result_Descr apiResponse),
                ArgInt (int (length (Result_StockParts apiResponse)))]
             # Http At_FetchParts (SchadeAutosClient_request c params) # w"
  from schade_range_panics [OF assms(4), of e c "[]" ?w1] obtain w' where
    "SchadeAutosClient_FetchParts_range e c (Result_StockParts apiResponse) [] ?w1
       = (Panics ''runtime error: invalid memory address or nil pointer dereference'', w')"
    by blast
  with assms(1-3) show ?thesis
    by (simp add: SchadeAutosClient_FetchParts_def client_Do_def)
qed

text \<open>
  Claim C2, as the code has it: an enter-date that is empty or in no known layout makes
  \<open>parseEnterDate\<close> return \<open>nil\<close>, and \<open>FetchParts\<close> dereferences it. With such a
  stock part in the response the call panics; it does not return an error.
\<close>

theorem unparseable_date_panics:
  "parseEnterDate [] = None
   \<and> parseEnterDate ''01.05.2023'' = None
   \<and> fst (SchadeAutosClient_FetchParts undated_env (NewSchadeAutosClient 8) no_limit [])
       = Panics ''runtime error: invalid memory address or nil pointer dereference''
   \<and> fst (SchadeAutosClient_FetchParts dotted_env (NewSchadeAutosClient 8) no_limit [])
       = Panics ''runtime error: invalid memory address or nil pointer dereference''"
proof -
  have undated: "fst (SchadeAutosClient_FetchParts undated_env (NewSchadeAutosClient 8) no_limit [])
       = Panics ''runtime error: invalid memory address or nil pointer dereference''"
    by (rule SchadeAutos_bad_date_panics
          [where rbody = "(''body'', None)"
             and apiResponse = "\<lparr>Result_Limited = False, Result_Descr = [],
                     Result_StockParts = [(''A7'', door), (''A8'', door\<lparr>sp_EnterDate := []\<rparr>)]\<rparr>"])
       (simp_all add: undated_env_def catalogue_env_def quiet_env_def door_def door_date empty_date)
  have dotted: "fst (SchadeAutosClient_FetchParts dotted_env (NewSchadeAutosClient 8) no_limit [])
       = Panics ''runtime error: invalid memory address or nil pointer dereference''"
    by (rule SchadeAutos_bad_date_panics
          [where rbody = "(''body'', None)"
             and apiResponse = "\<lparr>Result_Limited = False, Result_Descr = [],
                     Result_StockParts =
                       [(''A7'', door), (''A8'', door\<lparr>sp_EnterDate := ''01.05.2023''\<rparr>)]\<rparr>"])
       (simp_all add: dotted_env_def catalogue_env_def quiet_env_def door_def door_date dotted_date)
  from empty_date dotted_date undated dotted show ?thesis
    by (intro conjI)
qed



lemma token_down:
  "EbayClient_GetAccessToken token_down_env stale_client w
     = (Some (Errorf ''failed to get token: %w'' [ArgErr (Errorf ''context deadline exceeded'' [])]),
        stale_client, Http At_GetAccessToken (token_request token_down_env stale_client) # w)"
  by (simp add: EbayClient_GetAccessToken_def client_Do_def token_down_env_def catalogue_env_def
        quiet_env_def token_request_def EbayClient_getTokenURL_def stale_client_def
        NewEbayClient_def Let_def)

lemma search_is_not_token: "req_URL (search_request c offset) \<noteq> prodTokenURL"
  by (simp add: search_request_def prodTokenURL_def Let_def)

lemma token_down_search:
  "map_option fst (EbayClient_FetchParts_loop token_down_env stale_client 0 [] w)
     = Some (Inr [lamp_part])"
  by (subst EbayClient_FetchParts_loop.simps)
     (simp add: client_Do_def token_down_env_def catalogue_env_def quiet_env_def
        search_is_not_token lamp_def lamp_part_def stale_client_def NewEbayClient_def)

text \<open>
  Claim C3, as the code has it: \<open>FetchParts\<close> drops what \<open>GetAccessToken\<close> returns.
  When the token endpoint does not answer, \<open>GetAccessToken\<close> returns an error, and
  \<open>FetchParts\<close> goes on with the token the client holds and returns the parts of the
  search, with no error.
\<close>

theorem token_failure_is_dropped:
  "fst (EbayClient_GetAccessToken token_down_env stale_client
          [Log_Println ''Fetching parts from eBay''])
     = Some (Errorf ''failed to get token: %w'' [ArgErr (Errorf ''context deadline exceeded'' [])])
   \<and> map_option fst (EbayClient_FetchParts token_down_env stale_client no_limit [])
       = Some (Inr [lamp_part])"
proof -
  let ?w = "Log_Println ''Access token retrieved''
            # Http At_GetAccessToken (token_request token_down_env stale_client)
            # [Log_Println ''Fetching parts from eBay'']"
  from token_down_search [of ?w] obtain w' where
    "EbayClient_FetchParts_loop token_down_env stale_client 0 [] ?w = Some (Inr [lamp_part], w')"
    by (cases "EbayClient_FetchParts_loop token_down_env stale_client 0 [] ?w") auto
  then show ?thesis
    by (simp add: EbayClient_FetchParts_def token_down)
qed

text \<open>
  Claim C5, as the code has it: the Kleinanzeigen and SchadeAutos clients put \<open>https:\<close>
  before an image URL that starts with \<open>//\<close>; the eBay client sends the GET request with
  the URL as it is.
\<close>

theorem protocol_relative_image_URL:
  "requests_at At_fetchImageAsBase64
     (snd (KleinanzeigenClient_fetchImageAsBase64 catalogue_env (NewKleinanzeigenClient 7)
             ''//img.example/x.jpg'' []))
     = [image_request ''https://img.example/x.jpg'']
   \<and> requests_at At_fetchImageAsBase64
       (snd (SchadeAutosClient_fetchImageAsBase64 catalogue_env (NewSchadeAutosClient 8)
               ''//img.example/x.jpg'' []))
       = [image_request ''https://img.example/x.jpg'']
   \<and> requests_at At_fetchImageAsBase64
       (snd (EbayClient_fetchImageAsBase64 catalogue_env (NewEbayClient 9 ''app'' ''secret'' False)
               ''//img.example/x.jpg'' []))
       = [\<lparr>req_Method = ''GET'', req_URL = ''//img.example/x.jpg'', req_Header = [],
            req_Body = []\<rparr>]"
  by (simp add: KleinanzeigenClient_fetchImageAsBase64_def SchadeAutosClient_fetchImageAsBase64_def
        EbayClient_fetchImageAsBase64_def client_Do_def catalogue_env_def quiet_env_def
        HasPrefix_def Let_def)


section \<open>All three clients\<close>

lemma catalogue_stock:
  "fst (SchadeAutosClient_FetchParts catalogue_env (NewSchadeAutosClient 8) limit_one [])
     = Returns (Inr [door_part])"
  by (simp add: SchadeAutosClient_FetchParts_def client_Do_def catalogue_env_def quiet_env_def
        door_def door_date door_part_def NewSchadeAutosClient_def
        SchadeAutosClient_buildPartURL_def)

lemma catalogue_items:
  "map_option fst
     (EbayClient_FetchParts catalogue_env (NewEbayClient 9 ''app'' ''secret'' False) limit_one [])
     = Some (Inr [lamp_part])"
  by (simp add: EbayClient_FetchParts_def EbayClient_GetAccessToken_def
        EbayClient_FetchParts_loop.simps client_Do_def catalogue_env_def quiet_env_def
        lamp_def lamp_part_def NewEbayClient_def split: prod.splits)

lemma token_siteID:
  assumes "EbayClient_GetAccessToken e c w = (r, c', w')"
  shows "siteID c' = siteID c"
  using assms
  by (auto simp: EbayClient_GetAccessToken_def client_Do_def
           split: option.splits http_result.splits prod.splits if_splits sum.splits)

text \<open>
  Claim C6. Every part in the list a successful \<open>FetchParts\<close> returns carries the site
  ID of the client that was called, for each of the three clients.
\<close>

theorem SiteID_of_returned_parts:
  "(fst (KleinanzeigenClient_FetchParts e kc params w) = Inr parts
      \<longrightarrow> (\<forall>p\<in>set parts. SiteID p = KleinanzeigenClient_GetSiteID kc))
   \<and> (fst (SchadeAutosClient_FetchParts e sc params w) = Returns (Inr parts)
      \<longrightarrow> (\<forall>p\<in>set parts. SiteID p = SchadeAutosClient_GetSiteID sc))
   \<and> (map_option fst (EbayClient_FetchParts e ec params w) = Some (Inr parts)
      \<longrightarrow> (\<forall>p\<in>set parts. SiteID p = EbayClient_GetSiteID ec))"
proof (intro conjI impI)
  assume ok: "fst (KleinanzeigenClient_FetchParts e kc params w) = Inr parts"
  let ?w0 = "Log_Printf ''[KleinanzeigenClient] Starting fetch with params: %+v''
               [ArgParams params] # w"
  obtain r w1 where run: "KleinanzeigenClient_FetchParts_loop e kc params 1 [] ?w0 = (r, w1)"
    by (cases "KleinanzeigenClient_FetchParts_loop e kc params 1 [] ?w0")
  with ok obtain pg where "r = Inr (parts, pg)"
    by (cases r) (auto simp: KleinanzeigenClient_FetchParts_def)
  with run have
    loop: "KleinanzeigenClient_FetchParts_loop e kc params 1 [] ?w0 = (Inr (parts, pg), w1)"
    by simp
  have page: "\<forall>u w ps w'. KleinanzeigenClient_fetchSinglePage e kc u w = (Inr ps, w')
                \<longrightarrow> (\<forall>p\<in>set ps. SiteID p = siteID kc)"
  proof (intro allI impI ballI)
    fix u w ps w' q
    assume "KleinanzeigenClient_fetchSinglePage e kc u w = (Inr ps, w')" and "q \<in> set ps"
    with fetchSinglePage_Inr [of e kc u w ps w'] obtain s where "of_article kc s q"
      by blast
    then show "SiteID q = siteID kc"
      by (simp add: of_article_def)
  qed
  have "\<forall>p\<in>set parts. SiteID p = siteID kc"
    by (rule loop_parts [where P = "\<lambda>p. SiteID p = siteID kc", OF loop _ page]) simp
  then show "\<forall>p\<in>set parts. SiteID p = KleinanzeigenClient_GetSiteID kc"
    by (simp add: KleinanzeigenClient_GetSiteID_def)
next
  assume ok: "fst (SchadeAutosClient_FetchParts e sc params w) = Returns (Inr parts)"
  then obtain w0 w1 where
    "SchadeAutosClient_FetchParts_range e sc w0 [] w1 = (Returns parts, snd (SchadeAutosClient_FetchParts e sc params w))"
    by (auto simp: SchadeAutosClient_FetchParts_def Let_def
             split: option.splits prod.splits http_result.splits if_splits sum.splits
                    outcome.splits)
  from schade_range_SiteID [OF this]
  show "\<forall>p\<in>set parts. SiteID p = SchadeAutosClient_GetSiteID sc"
    by (simp add: SchadeAutosClient_GetSiteID_def)
next
  assume ok: "map_option fst (EbayClient_FetchParts e ec params w) = Some (Inr parts)"
  let ?w0 = "Log_Println ''Fetching parts from eBay'' # w"
  obtain r ec' w1 where token: "EbayClient_GetAccessToken e ec ?w0 = (r, ec', w1)"
    by (cases "EbayClient_GetAccessToken e ec ?w0")
  from token_siteID [OF token] have same: "siteID ec' = siteID ec" .
  from ok token obtain w2 where
    "EbayClient_FetchParts_loop e ec' 0 [] (Log_Println ''Access token retrieved'' # w1)
       = Some (Inr parts, w2)"
    by (auto simp: EbayClient_FetchParts_def split: option.splits)
  from ebay_loop_SiteID [OF this] same
  show "\<forall>p\<in>set parts. SiteID p = EbayClient_GetSiteID ec"
    by (simp add: EbayClient_GetSiteID_def)
qed


theorem SiteID_of_returned_parts_witness:
  "fst (KleinanzeigenClient_FetchParts catalogue_env (NewKleinanzeigenClient 7) limit_one [])
     = Inr [mirror_part, bumper_part]
   \<and> list_all (\<lambda>p. SiteID p = KleinanzeigenClient_GetSiteID (NewKleinanzeigenClient 7))
         [mirror_part, bumper_part]
   \<and> fst (SchadeAutosClient_FetchParts catalogue_env (NewSchadeAutosClient 8) limit_one [])
       = Returns (Inr [door_part])
   \<and> list_all (\<lambda>p. SiteID p = SchadeAutosClient_GetSiteID (NewSchadeAutosClient 8)) [door_part]
   \<and> map_option fst
         (EbayClient_FetchParts catalogue_env (NewEbayClient 9 ''app'' ''secret'' False) limit_one [])
       = Some (Inr [lamp_part])
   \<and> list_all (\<lambda>p. SiteID p = EbayClient_GetSiteID (NewEbayClient 9 ''app'' ''secret'' False))
         [lamp_part]"
proof -
  have kl: "\<forall>p\<in>set [mirror_part, bumper_part].
      SiteID p = KleinanzeigenClient_GetSiteID (NewKleinanzeigenClient 7)"
    using SiteID_of_returned_parts
      [of catalogue_env "NewKleinanzeigenClient 7" limit_one "[]" "[mirror_part, bumper_part]"]
      catalogue_listing
    by blast
  have sa: "\<forall>p\<in>set [door_part]. SiteID p = SchadeAutosClient_GetSiteID (NewSchadeAutosClient 8)"
    using SiteID_of_returned_parts
      [of catalogue_env _ limit_one "[]" "[door_part]" "NewSchadeAutosClient 8"]
      catalogue_stock
    by blast
  have eb: "\<forall>p\<in>set [lamp_part].
      SiteID p = EbayClient_GetSiteID (NewEbayClient 9 ''app'' ''secret'' False)"
    using SiteID_of_returned_parts
      [of catalogue_env _ limit_one "[]" "[lamp_part]" _ "NewEbayClient 9 ''app'' ''secret'' False"]
      catalogue_items
    by blast
  from kl sa eb catalogue_listing catalogue_stock catalogue_items show ?thesis
    by (simp add: list_all_iff)
qed


section \<open>Pagination\<close>













end
